theory Spec2Isabelle
  imports Complex_Main "HOL-Library.Log_Nat"
begin

section \<open>Values\<close>

text \<open>
  The program computes on 64-bit floats (Python \<open>float\<close>, numpy \<open>float64\<close> inside pandas).
  \<open>Fin r\<close> is a finite float read as the real number \<open>r\<close>, \<open>PInf\<close> and \<open>NInf\<close> are the
  infinities and \<open>NaN\<close> is not-a-number. The operations below compute exactly on the
  finite values; the indicator columns and the detectors are modelled with them. The
  position sizer rounds the result of every operation to a 64-bit float (see \<open>rd\<close>
  below). The sign of zero is outside the model.
\<close>

datatype fl = Fin real | PInf | NInf | NaN

fun fneg :: "fl \<Rightarrow> fl" where
  "fneg (Fin a) = Fin (- a)"
| "fneg PInf = NInf"
| "fneg NInf = PInf"
| "fneg NaN = NaN"

fun fabs :: "fl \<Rightarrow> fl" where
  "fabs (Fin a) = Fin \<bar>a\<bar>"
| "fabs PInf = PInf"
| "fabs NInf = PInf"
| "fabs NaN = NaN"

fun fadd :: "fl \<Rightarrow> fl \<Rightarrow> fl" where
  "fadd NaN y = NaN"
| "fadd x NaN = NaN"
| "fadd (Fin a) (Fin b) = Fin (a + b)"
| "fadd PInf NInf = NaN"
| "fadd NInf PInf = NaN"
| "fadd PInf y = PInf"
| "fadd x PInf = PInf"
| "fadd NInf y = NInf"
| "fadd x NInf = NInf"

definition fsub :: "fl \<Rightarrow> fl \<Rightarrow> fl" where
  "fsub x y = fadd x (fneg y)"

fun fmul :: "fl \<Rightarrow> fl \<Rightarrow> fl" where
  "fmul NaN y = NaN"
| "fmul x NaN = NaN"
| "fmul (Fin a) (Fin b) = Fin (a * b)"
| "fmul PInf (Fin b) = (if b = 0 then NaN else if 0 < b then PInf else NInf)"
| "fmul NInf (Fin b) = (if b = 0 then NaN else if 0 < b then NInf else PInf)"
| "fmul (Fin a) PInf = (if a = 0 then NaN else if 0 < a then PInf else NInf)"
| "fmul (Fin a) NInf = (if a = 0 then NaN else if 0 < a then NInf else PInf)"
| "fmul PInf PInf = PInf"
| "fmul NInf NInf = PInf"
| "fmul PInf NInf = NInf"
| "fmul NInf PInf = NInf"

text \<open>
  Division of numpy and pandas: a zero divisor gives an infinity or not-a-number and never
  raises.
\<close>

fun fdiv :: "fl \<Rightarrow> fl \<Rightarrow> fl" where
  "fdiv NaN y = NaN"
| "fdiv x NaN = NaN"
| "fdiv (Fin a) (Fin b) =
     (if b \<noteq> 0 then Fin (a / b) else if 0 < a then PInf else if a < 0 then NInf else NaN)"
| "fdiv (Fin a) PInf = Fin 0"
| "fdiv (Fin a) NInf = Fin 0"
| "fdiv PInf (Fin b) = (if 0 \<le> b then PInf else NInf)"
| "fdiv NInf (Fin b) = (if 0 \<le> b then NInf else PInf)"
| "fdiv x y = NaN"

text \<open>Comparisons: every comparison with not-a-number is false.\<close>

fun flt :: "fl \<Rightarrow> fl \<Rightarrow> bool" where
  "flt NaN y = False"
| "flt x NaN = False"
| "flt (Fin a) (Fin b) = (a < b)"
| "flt x NInf = False"
| "flt PInf y = False"
| "flt NInf y = True"
| "flt x PInf = True"

fun fle :: "fl \<Rightarrow> fl \<Rightarrow> bool" where
  "fle NaN y = False"
| "fle x NaN = False"
| "fle (Fin a) (Fin b) = (a \<le> b)"
| "fle NInf y = True"
| "fle x PInf = True"
| "fle x y = False"

definition fgt :: "fl \<Rightarrow> fl \<Rightarrow> bool" where
  "fgt x y = flt y x"

definition fge :: "fl \<Rightarrow> fl \<Rightarrow> bool" where
  "fge x y = fle y x"

text \<open>
  Rounding to a multiple of 1 with an exact tie going to the even neighbour, as IEEE 754
  rounds and as \<open>numpy.rint\<close> does.
\<close>

definition round_half_even :: "real \<Rightarrow> int" where
  "round_half_even y =
     (let f = \<lfloor>y\<rfloor>; d = y - of_int f
      in if d < 1 / 2 then f else if 1 / 2 < d then f + 1 else if even f then f else f + 1)"

text \<open>
  The 64-bit floats (IEEE 754 binary64). \<open>pow2 e\<close> is \<open>2\<close> to the integer \<open>e\<close>, and \<open>expo x\<close>,
  for \<open>x \<noteq> 0\<close>, is the exponent of the power of two at or below \<open>\<bar>x\<bar>\<close> (\<open>bitlen n\<close> is the
  number of binary digits of \<open>n\<close>). A float has 53 significant bits and an exponent of at
  least \<open>-1022\<close>, so the floats around \<open>x\<close> are the multiples of
  \<open>pow2 (max (expo x) (-1022) - 52)\<close>. \<open>rd x\<close> is the float nearest to the real \<open>x\<close>, a tie
  going to the even multiple; a result of size \<open>2^1024\<close> or more is an infinity.
\<close>

definition pow2 :: "int \<Rightarrow> real" where
  "pow2 e = (if 0 \<le> e then 2 ^ nat e else 1 / 2 ^ nat (- e))"

definition expo :: "real \<Rightarrow> int" where
  "expo x = (if 1 \<le> \<bar>x\<bar> then bitlen \<lfloor>\<bar>x\<bar>\<rfloor> - 1 else - bitlen (\<lceil>1 / \<bar>x\<bar>\<rceil> - 1))"

definition rd :: "real \<Rightarrow> fl" where
  "rd x =
     (if x = 0 then Fin 0
      else let u = pow2 (max (expo x) (- 1022) - 52);
               y = of_int (round_half_even (x / u)) * u
           in if 2 ^ 1024 \<le> \<bar>y\<bar> then (if 0 < x then PInf else NInf) else Fin y)"

text \<open>The result of a float operation: the exact result rounded.\<close>

fun rnd :: "fl \<Rightarrow> fl" where
  "rnd (Fin x) = rd x"
| "rnd x = x"

text \<open>
  Python's \<open>round(x, ndigits)\<close> on a \<open>float\<close>: the exact value of \<open>x\<close> is rounded to the
  nearest multiple of \<open>10 ^ -ndigits\<close>, an exact tie going to the even neighbour, and the
  float nearest to that decimal is returned; an infinity or not-a-number is returned
  unchanged.
\<close>

fun py_round :: "fl \<Rightarrow> nat \<Rightarrow> fl" where
  "py_round (Fin r) nd = rd (of_int (round_half_even (r * 10 ^ nd)) / 10 ^ nd)"
| "py_round x nd = x"

text \<open>
  \<open>round(x, ndigits)\<close> on a \<open>numpy.float64\<close> with \<open>ndigits > 0\<close> is numpy's \<open>round\<close>: the float
  is multiplied by \<open>10 ^ ndigits\<close>, rounded to an integer by \<open>rint\<close> and divided by
  \<open>10 ^ ndigits\<close>, each step a float operation.
\<close>

fun np_rint :: "fl \<Rightarrow> fl" where
  "np_rint (Fin r) = Fin (of_int (round_half_even r))"
| "np_rint x = x"

definition np_round :: "fl \<Rightarrow> nat \<Rightarrow> fl" where
  "np_round x nd = rnd (fdiv (np_rint (rnd (fmul x (Fin (10 ^ nd))))) (Fin (10 ^ nd)))"

datatype py_error = IndexError | ZeroDivisionError | ValueError | TypeError | OverflowError

text \<open>
  A number at run time is a Python \<open>float\<close> or a \<open>numpy.float64\<close>, and the two divide
  differently. A value read out of a DataFrame (\<open>last['close']\<close>) is a \<open>numpy.float64\<close>;
  an arithmetic operation with a \<open>numpy.float64\<close> operand is numpy's and returns a
  \<open>numpy.float64\<close>, also when the other operand is a Python \<open>float\<close> or \<open>int\<close>. Python's
  own division raises \<open>ZeroDivisionError\<close> on a zero divisor; numpy's returns an infinity
  or not-a-number (with a warning). A result too large for a float is an infinity for
  both, without an exception. Each of these operations rounds its result.
\<close>

datatype scalar = PyFloat fl | NpFloat fl

fun sval :: "scalar \<Rightarrow> fl" where
  "sval (PyFloat x) = x"
| "sval (NpFloat x) = x"

fun s_sub :: "scalar \<Rightarrow> scalar \<Rightarrow> scalar" where
  "s_sub (PyFloat x) (PyFloat y) = PyFloat (rnd (fsub x y))"
| "s_sub x y = NpFloat (rnd (fsub (sval x) (sval y)))"

fun s_abs :: "scalar \<Rightarrow> scalar" where
  "s_abs (PyFloat x) = PyFloat (fabs x)"
| "s_abs (NpFloat x) = NpFloat (fabs x)"

fun s_mul :: "scalar \<Rightarrow> scalar \<Rightarrow> scalar" where
  "s_mul (PyFloat x) (PyFloat y) = PyFloat (rnd (fmul x y))"
| "s_mul x y = NpFloat (rnd (fmul (sval x) (sval y)))"

fun s_truediv :: "scalar \<Rightarrow> scalar \<Rightarrow> py_error + scalar" where
  "s_truediv (PyFloat x) (PyFloat y) =
     (if y = Fin 0 then Inl ZeroDivisionError else Inr (PyFloat (rnd (fdiv x y))))"
| "s_truediv x y = Inr (NpFloat (rnd (fdiv (sval x) (sval y))))"

fun s_round :: "scalar \<Rightarrow> nat \<Rightarrow> scalar" where
  "s_round (PyFloat x) nd = PyFloat (py_round x nd)"
| "s_round (NpFloat x) nd = NpFloat (np_round x nd)"

fun is_py :: "scalar \<Rightarrow> bool" where
  "is_py (PyFloat x) = True"
| "is_py (NpFloat x) = False"

text \<open>
  A Python \<open>int\<close> that meets a float in an operation is converted to the nearest float
  first; an \<open>int\<close> beyond the range of the floats raises \<open>OverflowError\<close>.
\<close>

definition float_of_int :: "int \<Rightarrow> py_error + fl" where
  "float_of_int n = (case rd (of_int n) of Fin y \<Rightarrow> Inr (Fin y) | _ \<Rightarrow> Inl OverflowError)"

section \<open>Configuration, signals and the bot\<close>

record BotConfig =
  symbol :: string
  leverage :: int
  risk_percent :: real
  timeframe :: string
  strategy_mode :: string
  max_positions :: int

text \<open>The defaults of the class \<open>BotConfig\<close>.\<close>

definition default_config :: BotConfig where
  "default_config = \<lparr>symbol = ''BTC/USDT:USDT'', leverage = 10, risk_percent = 1,
     timeframe = ''5m'', strategy_mode = ''advanced'', max_positions = 3\<rparr>"

datatype side = LONG | SHORT

text \<open>The dictionary a detector returns; \<open>stype\<close> is its key \<open>'type'\<close>.\<close>

record signal =
  stype :: side
  entry :: scalar
  stop_loss :: scalar
  take_profit :: scalar
  confidence :: int
  strategy :: string

record TradingBot =
  config :: BotConfig
  is_running :: bool
  positions :: "signal list"
  balance :: int

definition TradingBot_init :: "BotConfig \<Rightarrow> TradingBot" where
  "TradingBot_init cfg = \<lparr>config = cfg, is_running = False, positions = [], balance = 10000\<rparr>"

subsection \<open>Position sizing\<close>

text \<open>
  \<open>TradingBot.calculate_position_size\<close>. The balance and the leverage are Python integers
  and the risk percentage is a Python float, so \<open>risk_amount\<close> is a Python float; what the
  division does on a zero \<open>stop_distance\<close> depends on the kind of the two arguments. The
  statements run in the order of the source: the quotient \<open>risk_percent / 100\<close> and the
  product with the balance, the distance, the division, the product with the leverage
  and the rounding.
\<close>

definition calculate_position_size :: "TradingBot \<Rightarrow> scalar \<Rightarrow> scalar \<Rightarrow> py_error + scalar" where
  "calculate_position_size b e sl =
     (case float_of_int (balance b) of
        Inl err \<Rightarrow> Inl err
      | Inr bal \<Rightarrow>
          let risk_amount = PyFloat (rnd (fmul bal (rd (risk_percent (config b) / 100))));
              stop_distance = s_abs (s_sub e sl)
          in case s_truediv risk_amount stop_distance of
               Inl err \<Rightarrow> Inl err
             | Inr q \<Rightarrow>
                 (case float_of_int (leverage (config b)) of
                    Inl err \<Rightarrow> Inl err
                  | Inr lev \<Rightarrow> Inr (s_round (s_mul q (PyFloat lev)) 3)))"

text \<open>What the bot prints, in order.\<close>

datatype event =
    BotStarted
  | BotStopped
  | TradeExecuted signal scalar
  | ErrorExecutingTrade py_error
  | ErrorInBotLoop py_error

text \<open>
  \<open>TradingBot.execute_trade\<close>: sizes the trade and logs it; any exception is caught, logged
  and turned into the result \<open>False\<close>. The bot is returned as the method leaves it.
\<close>

definition execute_trade :: "TradingBot \<Rightarrow> signal \<Rightarrow> TradingBot \<times> event list \<times> bool" where
  "execute_trade b s =
     (case calculate_position_size b (entry s) (stop_loss s) of
        Inr sz \<Rightarrow> (b, [TradeExecuted s sz], True)
      | Inl err \<Rightarrow> (b, [ErrorExecutingTrade err], False))"

text \<open>The sizing formula as the specification words it, on real numbers.\<close>

definition spec_size :: "real \<Rightarrow> real \<Rightarrow> real \<Rightarrow> real \<Rightarrow> real \<Rightarrow> real" where
  "spec_size bal rp lev e sl = (bal * rp / 100) / \<bar>e - sl\<bar> * lev"

subsection \<open>Candles and columns\<close>

text \<open>A row of the DataFrame built by \<open>fetch_ohlcv\<close>.\<close>

record candle =
  timestamp :: int
  c_open :: real
  high :: real
  low :: real
  close :: real
  volume :: real

text \<open>
  A frame is the list of its rows. It stands for the DataFrame that
  \<open>pd.DataFrame(ohlcv, columns=[...])\<close> builds from them, as \<open>fetch_ohlcv\<close> does: rows of
  numbers give columns of dtype \<open>float64\<close>, and no rows at all give columns of dtype
  \<open>object\<close>.
\<close>

definition object_columns :: "candle list \<Rightarrow> bool" where
  "object_columns df = (df = [])"

text \<open>A column given entry by entry: \<open>series n f\<close> holds \<open>f 0, \<dots>, f (n - 1)\<close>.\<close>

definition series :: "nat \<Rightarrow> (nat \<Rightarrow> 'a) \<Rightarrow> 'a list" where
  "series n f = map f [0..<n]"

text \<open>\<open>Series.diff()\<close>: the first entry has no predecessor and is not-a-number.\<close>

definition diff :: "real list \<Rightarrow> fl list" where
  "diff xs = series (length xs) (\<lambda>i. if i = 0 then NaN else Fin (xs ! i - xs ! (i - 1)))"

text \<open>\<open>Series.shift(k)\<close>: entry \<open>i\<close> is the old entry \<open>i - k\<close>, not-a-number outside the column.\<close>

definition shift :: "int \<Rightarrow> real list \<Rightarrow> fl list" where
  "shift k xs = series (length xs)
     (\<lambda>i. let j = int i - k in if 0 \<le> j \<and> j < int (length xs) then Fin (xs ! nat j) else NaN)"

definition cumsum :: "real list \<Rightarrow> real list" where
  "cumsum xs = series (length xs) (\<lambda>i. sum_list (take (Suc i) xs))"

fun is_fin :: "fl \<Rightarrow> bool" where
  "is_fin (Fin r) = True"
| "is_fin x = False"

fun the_fin :: "fl \<Rightarrow> real" where
  "the_fin (Fin r) = r"
| "the_fin x = 0"

text \<open>
  The mean of a full window. pandas turns an infinity into not-a-number before it
  aggregates a window, and a window with a not-a-number in it has fewer than the
  required \<open>min_periods = window\<close> observations: the result is not-a-number.
\<close>

definition fmean :: "fl list \<Rightarrow> fl" where
  "fmean xs = (if xs \<noteq> [] \<and> list_all is_fin xs
               then Fin (sum_list (map the_fin xs) / real (length xs)) else NaN)"

text \<open>The trailing window of \<open>w\<close> entries that ends at index \<open>i\<close>.\<close>

definition window :: "nat \<Rightarrow> 'a list \<Rightarrow> nat \<Rightarrow> 'a list" where
  "window w xs i = take w (drop (Suc i - w) xs)"

text \<open>\<open>Series.rolling(w).mean()\<close>: not-a-number until \<open>w\<close> entries are there.\<close>

definition rolling_mean :: "nat \<Rightarrow> fl list \<Rightarrow> fl list" where
  "rolling_mean w xs =
     series (length xs) (\<lambda>i. if Suc i < w then NaN else fmean (window w xs i))"

definition maximum :: "real list \<Rightarrow> real" where
  "maximum xs = fold max (tl xs) (hd xs)"

definition minimum :: "real list \<Rightarrow> real" where
  "minimum xs = fold min (tl xs) (hd xs)"

text \<open>
  \<open>Series.rolling(w, center=True).max()\<close> and \<open>.min()\<close> for an odd \<open>w\<close>: the window is
  centred on the entry and the result is not-a-number where it does not fit in the column.
\<close>

definition rolling_center :: "(real list \<Rightarrow> real) \<Rightarrow> nat \<Rightarrow> real list \<Rightarrow> fl list" where
  "rolling_center agg w xs =
     series (length xs) (\<lambda>i. if w div 2 \<le> i \<and> i + w div 2 < length xs
                              then Fin (agg (take w (drop (i - w div 2) xs))) else NaN)"

text \<open>\<open>tail(k)\<close>: the last \<open>k\<close> rows, all of them when there are fewer.\<close>

definition tail :: "nat \<Rightarrow> 'a list \<Rightarrow> 'a list" where
  "tail k xs = drop (length xs - k) xs"

text \<open>Python's indexing \<open>xs.iloc[k]\<close>: a negative index counts from the end.\<close>

definition iloc :: "'a list \<Rightarrow> int \<Rightarrow> py_error + 'a" where
  "iloc xs k =
     (let j = (if k < 0 then int (length xs) + k else k)
      in if 0 \<le> j \<and> j < int (length xs) then Inr (xs ! nat j) else Inl IndexError)"

section \<open>Indicators\<close>

text \<open>
  The fields of a candle are finite floats, so a column of the DataFrame is a list of real
  numbers; a derived column that can hold an undefined entry is a list of \<open>fl\<close>.

  \<open>Series.ewm(alpha, adjust=False).mean()\<close>: the first value seeds the average, and
  \<open>y\<^sub>t = (1 - alpha) * y\<^sub>t\<^sub>-\<^sub>1 + alpha * x\<^sub>t\<close> afterwards.
\<close>

fun ewm_from :: "real \<Rightarrow> real \<Rightarrow> real list \<Rightarrow> real list" where
  "ewm_from \<alpha> y [] = []"
| "ewm_from \<alpha> y (x # xs) = ((1 - \<alpha>) * y + \<alpha> * x) # ewm_from \<alpha> ((1 - \<alpha>) * y + \<alpha> * x) xs"

fun ewm_mean :: "real \<Rightarrow> real list \<Rightarrow> real list" where
  "ewm_mean \<alpha> [] = []"
| "ewm_mean \<alpha> (x # xs) = x # ewm_from \<alpha> x xs"

text \<open>
  \<open>AdvancedIndicators.calculate_ema\<close>: \<open>data.ewm(span=period, adjust=False).mean()\<close>. pandas
  turns the span into \<open>alpha = 2 / (span + 1)\<close> and raises \<open>ValueError\<close> for a span below 1.
\<close>

definition calculate_ema :: "real list \<Rightarrow> int \<Rightarrow> py_error + real list" where
  "calculate_ema data period =
     (if period < 1 then Inl ValueError else Inr (ewm_mean (2 / (of_int period + 1)) data))"

text \<open>
  \<open>AdvancedIndicators.calculate_rsi\<close>. \<open>delta.where(delta > 0, 0)\<close> keeps the positive
  changes and puts 0 elsewhere, also at the undefined first entry; the losses likewise,
  negated. The quotient \<open>gain / loss\<close> is pandas' division.
\<close>

definition gains :: "real list \<Rightarrow> fl list" where
  "gains data = map (\<lambda>d. if fgt d (Fin 0) then d else Fin 0) (diff data)"

definition losses :: "real list \<Rightarrow> fl list" where
  "losses data = map (\<lambda>d. fneg (if flt d (Fin 0) then d else Fin 0)) (diff data)"

definition calculate_rsi :: "real list \<Rightarrow> nat \<Rightarrow> fl list" where
  "calculate_rsi data period =
     (let gain = rolling_mean period (gains data);
          loss = rolling_mean period (losses data);
          rs = map2 fdiv gain loss
      in map (\<lambda>r. fsub (Fin 100) (fdiv (Fin 100) (fadd (Fin 1) r))) rs)"

text \<open>\<open>AdvancedIndicators.calculate_vwap\<close>.\<close>

definition calculate_vwap :: "candle list \<Rightarrow> fl list" where
  "calculate_vwap df =
     (let typical_price = map (\<lambda>c. (high c + low c + close c) / 3) df
      in map2 (\<lambda>a b. fdiv (Fin a) (Fin b))
           (cumsum (map2 (*) typical_price (map volume df))) (cumsum (map volume df)))"

text \<open>
  \<open>AdvancedIndicators.calculate_atr\<close>. The row-wise \<open>max\<close> skips the two entries that are
  undefined in the first row, where no previous close exists.
\<close>

definition true_range :: "candle list \<Rightarrow> real list" where
  "true_range df = series (length df)
     (\<lambda>i. let high_low = high (df ! i) - low (df ! i)
           in if i = 0 then high_low
              else max high_low (max \<bar>high (df ! i) - close (df ! (i - 1))\<bar>
                                     \<bar>low (df ! i) - close (df ! (i - 1))\<bar>))"

definition calculate_atr :: "candle list \<Rightarrow> nat \<Rightarrow> fl list" where
  "calculate_atr df period = rolling_mean period (map Fin (true_range df))"

text \<open>\<open>AdvancedIndicators.calculate_macd\<close> with its default spans 12, 26 and 9.\<close>

definition calculate_macd :: "real list \<Rightarrow> real list \<times> real list \<times> real list" where
  "calculate_macd data =
     (let ema_fast = ewm_mean (2 / (12 + 1)) data;
          ema_slow = ewm_mean (2 / (26 + 1)) data;
          macd = map2 (-) ema_fast ema_slow;
          signal_line = ewm_mean (2 / (9 + 1)) macd;
          histogram = map2 (-) macd signal_line
      in (macd, signal_line, histogram))"

text \<open>
  \<open>AdvancedIndicators.calculate_obv\<close>: the sign of the change of the close times the
  volume, 0 in the first row (\<open>fillna(0)\<close>), summed up.
\<close>

definition calculate_obv :: "candle list \<Rightarrow> real list" where
  "calculate_obv df = cumsum (series (length df)
     (\<lambda>i. if i = 0 then 0 else sgn (close (df ! i) - close (df ! (i - 1))) * volume (df ! i)))"

definition calculate_delta :: "candle list \<Rightarrow> real list" where
  "calculate_delta df = map (\<lambda>c. close c - c_open c) df"

section \<open>Strategy detectors\<close>

text \<open>
  A detector of \<open>AdvancedStrategies\<close> gets the DataFrame, a list of candles, and returns a
  signal, \<open>None\<close>, or raises. The numbers of a signal are \<open>numpy.float64\<close>. The row
  \<open>df.iloc[-1]\<close> is the last candle, and reading it raises \<open>IndexError\<close> on an empty frame.
\<close>

definition mk_signal :: "side \<Rightarrow> fl \<Rightarrow> fl \<Rightarrow> fl \<Rightarrow> int \<Rightarrow> string \<Rightarrow> signal" where
  "mk_signal t e sl tp c name =
     \<lparr>stype = t, entry = NpFloat e, stop_loss = NpFloat sl, take_profit = NpFloat tp,
      confidence = c, strategy = name\<rparr>"

definition ema_crossover_rsi_strategy :: "candle list \<Rightarrow> py_error + signal option" where
  "ema_crossover_rsi_strategy df =
     (case calculate_ema (map close df) 9 of Inl err \<Rightarrow> Inl err | Inr ema_9 \<Rightarrow>
      case calculate_ema (map close df) 21 of Inl err \<Rightarrow> Inl err | Inr ema_21 \<Rightarrow>
      case calculate_ema (map close df) 50 of Inl err \<Rightarrow> Inl err | Inr ema_50 \<Rightarrow>
      let rsi = calculate_rsi (map close df) 14;
          volume_avg = rolling_mean 20 (map (\<lambda>c. Fin (volume c)) df);
          n = length df
      in if n < 1 then Inl IndexError
         else if n < 2 then Inl IndexError
         else
           let i = n - 1; j = n - 2;
               cl = close (df ! i);
               atr = calculate_atr df 14 ! i
           in if ema_9 ! j \<le> ema_21 ! j \<and> ema_9 ! i > ema_21 ! i
                 \<and> fgt (rsi ! i) (Fin 50) \<and> flt (rsi ! i) (Fin 70)
                 \<and> cl > ema_50 ! i
                 \<and> fgt (Fin (volume (df ! i))) (fmul (volume_avg ! i) (Fin (12 / 10)))
              then Inr (Some (mk_signal LONG (Fin cl)
                     (fsub (Fin cl) (fmul (Fin 2) atr)) (fadd (Fin cl) (fmul (Fin 4) atr))
                     75 ''EMA Crossover with RSI''))
              else if ema_9 ! j \<ge> ema_21 ! j \<and> ema_9 ! i < ema_21 ! i
                 \<and> flt (rsi ! i) (Fin 50) \<and> fgt (rsi ! i) (Fin 30)
                 \<and> cl < ema_50 ! i
                 \<and> fgt (Fin (volume (df ! i))) (fmul (volume_avg ! i) (Fin (12 / 10)))
              then Inr (Some (mk_signal SHORT (Fin cl)
                     (fadd (Fin cl) (fmul (Fin 2) atr)) (fsub (Fin cl) (fmul (Fin 4) atr))
                     75 ''EMA Crossover with RSI''))
              else Inr None)"

definition volume_profile_order_flow_strategy :: "candle list \<Rightarrow> py_error + signal option" where
  "volume_profile_order_flow_strategy df =
     (let vwap = calculate_vwap df;
          delta = calculate_delta df
      in case calculate_ema delta 9 of Inl err \<Rightarrow> Inl err | Inr delta_ema \<Rightarrow>
         let volume_ma = rolling_mean 20 (map (\<lambda>c. Fin (volume c)) df);
             n = length df
         in if n < 1 then Inl IndexError
            else
              let i = n - 1;
                  cl = close (df ! i);
                  atr = calculate_atr df 14 ! i
              in if fgt (Fin cl) (vwap ! i)
                    \<and> delta ! i > 0
                    \<and> delta ! i > delta_ema ! i * (15 / 10)
                    \<and> fgt (Fin (volume (df ! i))) (fmul (volume_ma ! i) (Fin (15 / 10)))
                 then Inr (Some (mk_signal LONG (Fin cl)
                        (fsub (vwap ! i) atr) (fadd (Fin cl) (fmul (Fin 3) atr))
                        80 ''Volume Profile + Order Flow''))
                 else if flt (Fin cl) (vwap ! i)
                    \<and> delta ! i < 0
                    \<and> delta ! i < delta_ema ! i * (15 / 10)
                    \<and> fgt (Fin (volume (df ! i))) (fmul (volume_ma ! i) (Fin (15 / 10)))
                 then Inr (Some (mk_signal SHORT (Fin cl)
                        (fadd (vwap ! i) atr) (fsub (Fin cl) (fmul (Fin 3) atr))
                        80 ''Volume Profile + Order Flow''))
                 else Inr None)"

text \<open>
  The rows that are swing highs: \<open>df[df['high'] == df['swing_high']]\<close>, where the centred
  maximum is not-a-number, and so equal to nothing, in the first two and last two rows.
\<close>

definition swing_rows :: "(real list \<Rightarrow> real) \<Rightarrow> (candle \<Rightarrow> real) \<Rightarrow> candle list \<Rightarrow> candle list" where
  "swing_rows agg col df =
     map fst (filter (\<lambda>(c, s). Fin (col c) = s) (zip df (rolling_center agg 5 (map col df))))"

definition market_structure_break_strategy :: "candle list \<Rightarrow> py_error + signal option" where
  "market_structure_break_strategy df =
     (let rsi = calculate_rsi (map close df) 14;
          macd_hist = snd (snd (calculate_macd (map close df)));
          n = length df
      in if n < 1 then Inl IndexError
         else
           let i = n - 1;
               cl = close (df ! i);
               recent_highs = tail 3 (swing_rows maximum high df);
               recent_lows = tail 3 (swing_rows minimum low df);
               atr = calculate_atr df 14 ! i
           in if length recent_highs \<ge> 2
                 \<and> cl > high (recent_highs ! (length recent_highs - 2))
                 \<and> fgt (rsi ! i) (Fin 55)
                 \<and> macd_hist ! i > 0
              then Inr (Some (mk_signal LONG (Fin cl)
                     (if length recent_lows > 0 then Fin (low (last recent_lows))
                      else fsub (Fin cl) (fmul (Fin 2) atr))
                     (fadd (Fin cl) (fmul (Fin 3) atr))
                     72 ''Market Structure Break''))
              else if length recent_lows \<ge> 2
                 \<and> cl < low (recent_lows ! (length recent_lows - 2))
                 \<and> flt (rsi ! i) (Fin 45)
                 \<and> macd_hist ! i < 0
              then Inr (Some (mk_signal SHORT (Fin cl)
                     (if length recent_highs > 0 then Fin (high (last recent_highs))
                      else fadd (Fin cl) (fmul (Fin 2) atr))
                     (fsub (Fin cl) (fmul (Fin 3) atr))
                     72 ''Market Structure Break''))
              else Inr None)"

text \<open>
  In \<open>liquidity_sweep_fvg_strategy\<close> the conditions are joined by \<open>and\<close>, which stops at the
  first false one: \<open>last_3['high'].iloc[1]\<close> is read, and can raise, only when the sweep
  condition before it holds.
\<close>

definition liquidity_sweep_fvg_strategy :: "candle list \<Rightarrow> py_error + signal option" where
  "liquidity_sweep_fvg_strategy df =
     (let fvg_up = map2 fgt (shift (- 1) (map low df)) (shift 1 (map high df));
          fvg_down = map2 flt (shift (- 1) (map high df)) (shift 1 (map low df));
          volume_ma = rolling_mean 20 (map (\<lambda>c. Fin (volume c)) df);
          atr = calculate_atr df 14;
          last_3 = tail 3 df;
          n = length df
      in if length last_3 < 1 then Inl IndexError
         else
           let i = n - 1;
               cl = close (df ! i);
               lows = map low last_3;
               highs = map high last_3;
               vol_ok = fgt (Fin (volume (df ! i))) (fmul (volume_ma ! i) (Fin (15 / 10)));
               long_cond =
                 (if minimum lows < hd lows
                  then case iloc highs 1 of
                         Inl err \<Rightarrow> Inl err
                       | Inr h1 \<Rightarrow> Inr (cl > h1 \<and> fvg_up ! i \<and> vol_ok)
                  else Inr False);
               short_cond =
                 (if maximum highs > hd highs
                  then case iloc lows 1 of
                         Inl err \<Rightarrow> Inl err
                       | Inr l1 \<Rightarrow> Inr (cl < l1 \<and> fvg_down ! i \<and> vol_ok)
                  else Inr False)
           in case long_cond of
                Inl err \<Rightarrow> Inl err
              | Inr True \<Rightarrow>
                  Inr (Some (mk_signal LONG (Fin cl)
                     (fsub (Fin (minimum lows)) (atr ! i))
                     (Fin (cl + (cl - minimum lows) * 2))
                     82 ''Liquidity Sweep + FVG''))
              | Inr False \<Rightarrow>
                  (case short_cond of
                     Inl err \<Rightarrow> Inl err
                   | Inr True \<Rightarrow>
                       Inr (Some (mk_signal SHORT (Fin cl)
                          (fadd (Fin (maximum highs)) (atr ! i))
                          (Fin (cl - (maximum highs - cl) * 2))
                          82 ''Liquidity Sweep + FVG''))
                   | Inr False \<Rightarrow> Inr None))"

text \<open>
  \<open>DataFrame.nsmallest(k, col)\<close> and \<open>nlargest(k, col)\<close>: the \<open>k\<close> rows with the smallest
  (largest) entry, in ascending (descending) order of it, rows with equal entries in
  their order in the frame. Rows are given by their index in the frame. On a column of
  dtype \<open>object\<close> both raise \<open>TypeError\<close>, whatever the number of rows; the detector below
  calls \<open>nsmallest\<close> first, after its indicator columns are computed.
\<close>

definition nsmallest :: "nat \<Rightarrow> (nat \<Rightarrow> real) \<Rightarrow> nat list \<Rightarrow> nat list" where
  "nsmallest k col rows = take k (sort_key col rows)"

definition nlargest :: "nat \<Rightarrow> (nat \<Rightarrow> real) \<Rightarrow> nat list \<Rightarrow> nat list" where
  "nlargest k col rows = take k (sort_key (\<lambda>r. - col r) rows)"

definition delta_divergence_strategy :: "candle list \<Rightarrow> py_error + signal option" where
  "delta_divergence_strategy df =
     (let delta = calculate_delta df;
          obv = calculate_obv df;
          obv_ma = rolling_mean 20 (map Fin obv);
          rsi = calculate_rsi (map close df) 14;
          n = length df;
          i = n - 1;
          last_20 = tail 20 [0..<n];
          atr = calculate_atr df 14 ! i;
          price_lows = nsmallest 2 (\<lambda>r. low (df ! r)) last_20;
          price_highs = nlargest 2 (\<lambda>r. high (df ! r)) last_20
      in if object_columns df then Inl TypeError
         else if length price_lows = 2
            \<and> low (df ! (price_lows ! 1)) < low (df ! (price_lows ! 0))
            \<and> delta ! (price_lows ! 1) > delta ! (price_lows ! 0)
            \<and> fgt (Fin (obv ! i)) (obv_ma ! i)
            \<and> flt (rsi ! i) (Fin 40)
         then Inr (Some (mk_signal LONG (Fin (close (df ! i)))
                (fsub (Fin (low (df ! (price_lows ! 1)))) atr)
                (fadd (Fin (close (df ! i))) (fmul (Fin 3) atr))
                78 ''Delta Divergence''))
         else if length price_highs = 2
            \<and> high (df ! (price_highs ! 1)) > high (df ! (price_highs ! 0))
            \<and> delta ! (price_highs ! 1) < delta ! (price_highs ! 0)
            \<and> flt (Fin (obv ! i)) (obv_ma ! i)
            \<and> fgt (rsi ! i) (Fin 60)
         then Inr (Some (mk_signal SHORT (Fin (close (df ! i)))
                (fadd (Fin (high (df ! (price_highs ! 1)))) atr)
                (fsub (Fin (close (df ! i))) (fmul (Fin 3) atr))
                78 ''Delta Divergence''))
         else Inr None)"

section \<open>The aggregator and the trading loop\<close>

text \<open>
  \<open>TradingBot.analyze_market\<close> runs the five detectors in order; an exception of one of
  them leaves the method. The signals are sorted by confidence, highest first, signals of
  equal confidence staying in detector order.
\<close>

fun collect_signals :: "(py_error + signal option) list \<Rightarrow> py_error + signal list" where
  "collect_signals [] = Inr []"
| "collect_signals (Inl err # rs) = Inl err"
| "collect_signals (Inr None # rs) = collect_signals rs"
| "collect_signals (Inr (Some s) # rs) =
     (case collect_signals rs of Inl err \<Rightarrow> Inl err | Inr ss \<Rightarrow> Inr (s # ss))"

definition analyze_market :: "TradingBot \<Rightarrow> candle list \<Rightarrow> TradingBot \<times> (py_error + signal list)" where
  "analyze_market b df =
     (b, case collect_signals
           [ema_crossover_rsi_strategy df,
            volume_profile_order_flow_strategy df,
            market_structure_break_strategy df,
            liquidity_sweep_fvg_strategy df,
            delta_divergence_strategy df] of
          Inl err \<Rightarrow> Inl err
        | Inr signals \<Rightarrow> Inr (sort_key (\<lambda>s. - confidence s) signals))"

definition stop :: "TradingBot \<Rightarrow> TradingBot \<times> event list" where
  "stop b = (b\<lparr>is_running := False\<rparr>, [BotStopped])"

text \<open>
  One pass through the body of the loop of \<open>TradingBot.run\<close>. \<open>fetched\<close> is what
  \<open>fetch_ohlcv\<close> returned: a frame, or \<open>None\<close> after a failed request. An exception of the
  analysis is caught and logged by the loop.
\<close>

definition run_iteration :: "TradingBot \<Rightarrow> candle list option \<Rightarrow> TradingBot \<times> event list" where
  "run_iteration b fetched =
     (case fetched of
        None \<Rightarrow> (b, [])
      | Some df \<Rightarrow>
          if length df > 50
          then case analyze_market b df of
                 (b1, Inl err) \<Rightarrow> (b1, [ErrorInBotLoop err])
               | (b1, Inr signals) \<Rightarrow>
                   if signals \<noteq> [] \<and> int (length (positions b1)) < max_positions (config b1)
                   then case execute_trade b1 (hd signals) of (b2, evs, ok) \<Rightarrow> (b2, evs)
                   else (b1, [])
          else (b, []))"

text \<open>
  The loop runs while \<open>is_running\<close> holds. Each round gets what the environment does in
  it: the result of the fetch, and whether \<open>stop\<close> is called during the sleep that ends
  the round. The list of rounds is the time the loop is observed for; a loop that is
  still running when the list ends is returned running.
\<close>

fun run_loop :: "TradingBot \<Rightarrow> (candle list option \<times> bool) list \<Rightarrow> TradingBot \<times> event list" where
  "run_loop b [] = (b, [])"
| "run_loop b ((fetched, stop_called) # rounds) =
     (if is_running b
      then case run_iteration b fetched of (b1, evs1) \<Rightarrow>
           case (if stop_called then stop b1 else (b1, [])) of (b2, evs2) \<Rightarrow>
           case run_loop b2 rounds of (b3, evs3) \<Rightarrow> (b3, evs1 @ evs2 @ evs3)
      else (b, []))"

definition run :: "TradingBot \<Rightarrow> (candle list option \<times> bool) list \<Rightarrow> TradingBot \<times> event list" where
  "run b rounds =
     (case run_loop (b\<lparr>is_running := True\<rparr>) rounds of (b', evs) \<Rightarrow> (b', BotStarted # evs))"

section \<open>Starting the bot\<close>

text \<open>
  \<open>start_bot\<close> of \<open>binance_bot_backend.py\<close>. The global \<open>bot_instance\<close> is \<open>None\<close> or a bot.
  A running bot makes the handler raise \<open>HTTPException(400, "Bot is already running")\<close>;
  otherwise a new bot replaces the old one and its \<open>run\<close> task, which sets
  \<open>is_running\<close> first, is scheduled. The model lets the scheduled task take that first
  step at once. The handler reads no account balance.
\<close>

datatype http_error = HTTPException int string

definition start_bot :: "TradingBot option \<Rightarrow> BotConfig \<Rightarrow> http_error + TradingBot option \<times> string" where
  "start_bot bot_instance cfg =
     (if (case bot_instance of None \<Rightarrow> False | Some b \<Rightarrow> is_running b)
      then Inl (HTTPException 400 ''Bot is already running'')
      else Inr (Some ((TradingBot_init cfg)\<lparr>is_running := True\<rparr>), ''Bot started successfully''))"

text \<open>
  \<open>start_bot\<close> of \<open>main-no-ccxt.py\<close>, on the global \<open>trading_bot\<close>. Its inputs from outside
  are the environment \<open>env_vars\<close> and what opening the client and \<open>fetch_balance\<close> give:
  an exception or the \<open>'total'\<close> of the balance. The handler answers with a dictionary of a
  status, a message and, in two cases, the balance. \<open>fmt\<close> stands for Python's formatting
  of a float with two decimals (\<open>f"{x:.2f}"\<close>). As above, the scheduled task
  \<open>trading_bot.start()\<close> takes its first step, \<open>is_running = True\<close>, at once.
\<close>

record TradingBot_nc =
  nc_api_key :: string
  nc_api_secret :: string
  nc_is_running :: bool
  nc_positions :: "string list"
  nc_trades :: "string list"
  nc_total_pnl :: real

record start_response =
  rs_status :: string
  rs_message :: string
  rs_balance :: "real option"

definition env_get :: "(string \<rightharpoonup> string) \<Rightarrow> string \<Rightarrow> string \<Rightarrow> string" where
  "env_get env k d = (case env k of None \<Rightarrow> d | Some v \<Rightarrow> v)"

definition start_bot_nc ::
  "(real \<Rightarrow> string) \<Rightarrow> (string \<rightharpoonup> string) \<Rightarrow> string + real \<Rightarrow> TradingBot_nc
     \<Rightarrow> TradingBot_nc \<times> start_response" where
  "start_bot_nc fmt env fetched tb =
     (if nc_is_running tb
      then (tb, \<lparr>rs_status = ''running'', rs_message = ''Bot is already running'',
                   rs_balance = None\<rparr>)
      else
        let api_key = env_get env ''BINANCE_API_KEY'' [];
            api_secret = env_get env ''BINANCE_SECRET_KEY'' []
        in if api_key = [] \<or> api_secret = []
           then (tb, \<lparr>rs_status = ''error'',
                   rs_message = ''API credentials not found. Please configure .env file.'',
                   rs_balance = None\<rparr>)
           else
             case fetched of
               Inl exn \<Rightarrow>
                 (tb, \<lparr>rs_status = ''error'',
                   rs_message = ''Failed to connect to Binance API: '' @ exn,
                   rs_balance = None\<rparr>)
             | Inr account_balance \<Rightarrow>
                 if account_balance \<le> 0
                 then (tb, \<lparr>rs_status = ''blocked'',
                   rs_message = ''Account balance is $'' @ fmt account_balance
                      @ ''. Cannot start bot with zero balance.'',
                   rs_balance = Some account_balance\<rparr>)
                 else (tb\<lparr>nc_is_running := True\<rparr>, \<lparr>rs_status = ''started'',
                   rs_message = ''Trading bot started successfully. Balance: $''
                      @ fmt account_balance,
                   rs_balance = Some account_balance\<rparr>))"

text \<open>An environment with both credentials, one without, and the idle bot.\<close>

definition env_ok :: "string \<rightharpoonup> string" where
  "env_ok = [''BINANCE_API_KEY'' \<mapsto> ''test_key'', ''BINANCE_SECRET_KEY'' \<mapsto> ''test_secret'']"

definition env_missing :: "string \<rightharpoonup> string" where
  "env_missing = [''TRADING_MODE'' \<mapsto> ''testnet'']"

definition idle_bot_nc :: TradingBot_nc where
  "idle_bot_nc = \<lparr>nc_api_key = ''test_key'', nc_api_secret = ''test_secret'',
     nc_is_running = False, nc_positions = [], nc_trades = [], nc_total_pnl = 0\<rparr>"

section \<open>The conditions of the specification and concrete frames\<close>

text \<open>
  The long condition of the Liquidity Sweep detector as the specification words it, over
  the last three candles \<open>c0, c1, c2\<close>: the least low undercuts the low of \<open>c0\<close>, the close
  is above the high of \<open>c1\<close>, the low of \<open>c2\<close> exceeds the high of \<open>c0\<close>, the candle two steps
  behind it (the gap), and the volume exceeds 1.5 times its 20-period average.
\<close>

definition spec_liquidity_sweep_long :: "candle list \<Rightarrow> bool" where
  "spec_liquidity_sweep_long df =
     (case tail 3 df of
        [c0, c1, c2] \<Rightarrow>
          min (low c0) (min (low c1) (low c2)) < low c0
          \<and> close c2 > high c1
          \<and> low c2 > high c0
          \<and> fgt (Fin (volume c2))
                 (fmul (last (rolling_mean 20 (map (\<lambda>c. Fin (volume c)) df))) (Fin (15 / 10)))
      | _ \<Rightarrow> False)"

text \<open>
  The long condition of the Delta Divergence detector as the specification words it: of
  the two lowest-low candles of the last 20, the more recent one has the lower low and
  the higher delta, the OBV is above its 20-period average and the RSI is below 40.
\<close>

definition spec_delta_divergence_long :: "candle list \<Rightarrow> bool" where
  "spec_delta_divergence_long df =
     (let rows = nsmallest 2 (\<lambda>r. low (df ! r)) (tail 20 [0..<length df])
      in length rows = 2
         \<and> (let earlier = min (rows ! 0) (rows ! 1); recent = max (rows ! 0) (rows ! 1)
            in low (df ! recent) < low (df ! earlier)
               \<and> calculate_delta df ! recent > calculate_delta df ! earlier)
         \<and> fgt (Fin (last (calculate_obv df))) (last (rolling_mean 20 (map Fin (calculate_obv df))))
         \<and> flt (last (calculate_rsi (map close df) 14)) (Fin 40))"

text \<open>A candle from its open, high, low, close and volume.\<close>

definition mkc :: "real \<Rightarrow> real \<Rightarrow> real \<Rightarrow> real \<Rightarrow> real \<Rightarrow> candle" where
  "mkc o' h l c v = \<lparr>timestamp = 0, c_open = o', high = h, low = l, close = c, volume = v\<rparr>"

text \<open>
  Twenty candles: eighteen flat ones, one that dips to 95, and a last one that opens above
  the high of the flat candles and closes at 105 on ten times the volume.
\<close>

definition sweep_candles :: "candle list" where
  "sweep_candles =
     [mkc 100 101 99 100 10, mkc 100 101 99 100 10, mkc 100 101 99 100 10,
      mkc 100 101 99 100 10, mkc 100 101 99 100 10, mkc 100 101 99 100 10,
      mkc 100 101 99 100 10, mkc 100 101 99 100 10, mkc 100 101 99 100 10,
      mkc 100 101 99 100 10, mkc 100 101 99 100 10, mkc 100 101 99 100 10,
      mkc 100 101 99 100 10, mkc 100 101 99 100 10, mkc 100 101 99 100 10,
      mkc 100 101 99 100 10, mkc 100 101 99 100 10, mkc 100 101 99 100 10,
      mkc 100 100 95 96 10, mkc 102 106 102 105 100]"

text \<open>
  Twenty candles: seventeen flat ones, two that fall to 90 and 80 on little volume, with
  lows 89 and 79, and a last one with the lowest low, 75, that closes up at 81 on a
  hundred times the volume.
\<close>

definition divergence_candles :: "candle list" where
  "divergence_candles =
     [mkc 100 101 99 100 1, mkc 100 101 99 100 1, mkc 100 101 99 100 1,
      mkc 100 101 99 100 1, mkc 100 101 99 100 1, mkc 100 101 99 100 1,
      mkc 100 101 99 100 1, mkc 100 101 99 100 1, mkc 100 101 99 100 1,
      mkc 100 101 99 100 1, mkc 100 101 99 100 1, mkc 100 101 99 100 1,
      mkc 100 101 99 100 1, mkc 100 101 99 100 1, mkc 100 101 99 100 1,
      mkc 100 101 99 100 1, mkc 100 101 99 100 1,
      mkc 100 100 89 90 1, mkc 90 90 79 80 1, mkc 80 82 75 81 100]"

text \<open>
  Thirteen candles: six around 10 and seven around 100 that rise to a high of 104 and a
  low of 96 and come back.
\<close>

definition msb_rise :: "candle list" where
  "msb_rise =
     [mkc 10 10 9 10 10, mkc 10 11 9 10 10, mkc 10 12 9 10 10,
      mkc 10 11 9 10 10, mkc 10 10 9 10 10, mkc 10 10 9 10 10,
      mkc 100 101 99 100 10, mkc 100 102 98 100 10, mkc 100 103 97 100 10,
      mkc 100 104 96 100 10, mkc 100 103 97 100 10, mkc 100 102 98 100 10,
      mkc 100 101 99 100 10]"

text \<open>Fourteen candles: the thirteen and a last one that falls back to 50.\<close>

definition msb_short_candles :: "candle list" where
  "msb_short_candles = msb_rise @ [mkc 100 100 50 50 10]"

text \<open>Fifty-nine candles: forty-six flat ones around 10 before the thirteen.\<close>

definition msb_history :: "candle list" where
  "msb_history = replicate 46 (mkc 10 10 9 10 10) @ msb_rise"

text \<open>Sixty candles: the fifty-nine and a last one that falls back to 50.\<close>

definition msb_candles :: "candle list" where
  "msb_candles = msb_history @ [mkc 100 100 50 50 10]"

text \<open>Sixty candles: the fifty-nine and a last one that closes at 96, on its low.\<close>

definition zero_stop_candles :: "candle list" where
  "zero_stop_candles = msb_history @ [mkc 100 100 96 96 10]"

text \<open>The ordering of stop, entry and target that the direction of a signal asks for.\<close>

definition ordered :: "signal \<Rightarrow> bool" where
  "ordered s =
     (case stype s of
        LONG \<Rightarrow> flt (sval (stop_loss s)) (sval (entry s)) \<and> flt (sval (entry s)) (sval (take_profit s))
      | SHORT \<Rightarrow> flt (sval (take_profit s)) (sval (entry s)) \<and> flt (sval (entry s)) (sval (stop_loss s)))"

text \<open>The target side of the ordering alone.\<close>

definition target_ordered :: "signal \<Rightarrow> bool" where
  "target_ordered s =
     (case stype s of
        LONG \<Rightarrow> flt (sval (entry s)) (sval (take_profit s))
      | SHORT \<Rightarrow> flt (sval (take_profit s)) (sval (entry s)))"

text \<open>A candle whose low and high enclose its open and close.\<close>

definition well_formed :: "candle \<Rightarrow> bool" where
  "well_formed c = (low c \<le> c_open c \<and> low c \<le> close c \<and> c_open c \<le> high c \<and> close c \<le> high c)"

text \<open>
  What can be done with a bot once it is built: the methods of \<open>TradingBot\<close> that get
  \<open>self\<close>. A history of a bot is a list of such calls, applied from left to right.
\<close>

datatype bot_call =
    CallRun "(candle list option \<times> bool) list"
  | CallIteration "candle list option"
  | CallAnalyze "candle list"
  | CallExecute signal
  | CallStop

fun apply_call :: "TradingBot \<Rightarrow> bot_call \<Rightarrow> TradingBot" where
  "apply_call b (CallRun rounds) = fst (run b rounds)"
| "apply_call b (CallIteration fetched) = fst (run_iteration b fetched)"
| "apply_call b (CallAnalyze df) = fst (analyze_market b df)"
| "apply_call b (CallExecute s) = fst (execute_trade b s)"
| "apply_call b CallStop = fst (stop b)"

text \<open>
  The averages of the RSI as the specification words them: the gain of an entry is its
  rise over the entry before, the loss its fall, both 0 for the first entry, and the
  average gain and loss at index \<open>i\<close> are their means over the \<open>period\<close> entries that end
  at \<open>i\<close>.
\<close>

definition gain_at :: "real list \<Rightarrow> nat \<Rightarrow> real" where
  "gain_at data j = (if j = 0 then 0 else max 0 (data ! j - data ! (j - 1)))"

definition loss_at :: "real list \<Rightarrow> nat \<Rightarrow> real" where
  "loss_at data j = (if j = 0 then 0 else max 0 (data ! (j - 1) - data ! j))"

definition avg_gain :: "real list \<Rightarrow> nat \<Rightarrow> nat \<Rightarrow> real" where
  "avg_gain data period i =
     sum_list (map (gain_at data) [Suc i - period..<Suc i]) / real period"

definition avg_loss :: "real list \<Rightarrow> nat \<Rightarrow> nat \<Rightarrow> real" where
  "avg_loss data period i =
     sum_list (map (loss_at data) [Suc i - period..<Suc i]) / real period"

section \<open>Rounding errors\<close>

text \<open>
  Bookkeeping for the error of a chain of float operations. A float operation on a
  result within the normal range multiplies the exact result by a factor between
  \<open>1 - 2^-53\<close> and its inverse.
\<close>

definition q53 :: real where
  "q53 = 1 - 1 / 2 ^ 53"

text \<open>A factor made of at most \<open>k\<close> such factors.\<close>

definition errf :: "nat \<Rightarrow> real \<Rightarrow> bool" where
  "errf k t = (q53 ^ k \<le> t \<and> t * q53 ^ k \<le> 1)"

text \<open>A size between \<open>2^-k\<close> and \<open>2^k\<close>.\<close>

definition rng :: "nat \<Rightarrow> real \<Rightarrow> bool" where
  "rng k x = (1 / 2 ^ k \<le> x \<and> x \<le> 2 ^ k)"

section \<open>Rounding\<close>

lemma round_half_even_near: "\<bar>of_int (round_half_even y) - y\<bar> \<le> 1 / 2"
  unfolding round_half_even_def Let_def by (simp; linarith)

lemma round_half_even_int [simp]: "round_half_even (of_int k) = k"
  unfolding round_half_even_def Let_def by simp

lemma pow2_powr: "pow2 e = 2 powr (of_int e)"
  by (auto simp: pow2_def powr_realpow [symmetric] powr_minus field_simps)

lemma pow2_pos [simp]: "0 < pow2 e"
  by (simp add: pow2_powr)

lemma pow2_add: "pow2 (a + b) = pow2 a * pow2 b"
  by (simp add: pow2_powr powr_add)

lemma pow2_mono: "a \<le> b \<Longrightarrow> pow2 a \<le> pow2 b"
  by (simp add: pow2_powr)

lemma pow2_less_iff: "pow2 a < pow2 b \<longleftrightarrow> a < b"
  by (simp add: pow2_powr)

lemma expo_bounds:
  assumes "x \<noteq> 0"
  shows "pow2 (expo x) \<le> \<bar>x\<bar> \<and> \<bar>x\<bar> < pow2 (expo x + 1)"
proof (cases "1 \<le> \<bar>x\<bar>")
  case True
  define n where "n = \<lfloor>\<bar>x\<bar>\<rfloor>"
  have n: "0 < n" using True by (simp add: n_def)
  have bl: "1 \<le> bitlen n" using n bitlen_nonneg [of n] bitlen_eq_zero_iff [of n] by linarith
  have b: "2 ^ nat (bitlen n - 1) \<le> n" "n < 2 ^ nat (bitlen n)"
    using bitlen_bounds [OF n] by auto
  have "(2::real) ^ nat (bitlen n - 1) \<le> real_of_int n" using b(1) by simp
  moreover have "real_of_int n \<le> \<bar>x\<bar>" by (simp add: n_def)
  ultimately have lo: "2 ^ nat (bitlen n - 1) \<le> \<bar>x\<bar>" by linarith
  have "n + 1 \<le> 2 ^ nat (bitlen n)" using b(2) by linarith
  then have "real_of_int (n + 1) \<le> (2::real) ^ nat (bitlen n)"
    by (simp only: of_int_le_numeral_power_cancel_iff)
  moreover have "\<bar>x\<bar> < real_of_int (n + 1)" unfolding n_def by linarith
  ultimately have hi: "\<bar>x\<bar> < 2 ^ nat (bitlen n)" by linarith
  have "expo x = bitlen n - 1" using True by (simp add: expo_def n_def)
  then show ?thesis using lo hi bl by (simp add: pow2_def)
next
  case False
  define y where "y = 1 / \<bar>x\<bar>"
  have xpos: "0 < \<bar>x\<bar>" using assms by simp
  have y1: "1 < y" using False xpos by (simp add: y_def)
  define m where "m = \<lceil>y\<rceil> - 1"
  have m: "0 < m" using y1 unfolding m_def by linarith
  have bl: "1 \<le> bitlen m" using m bitlen_nonneg [of m] bitlen_eq_zero_iff [of m] by linarith
  have b: "2 ^ nat (bitlen m - 1) \<le> m" "m < 2 ^ nat (bitlen m)"
    using bitlen_bounds [OF m] by auto
  have my: "real_of_int m < y" "y \<le> real_of_int (m + 1)" unfolding m_def by linarith+
  have "m + 1 \<le> 2 ^ nat (bitlen m)" using b(2) by linarith
  then have "real_of_int (m + 1) \<le> (2::real) ^ nat (bitlen m)"
    by (simp only: of_int_le_numeral_power_cancel_iff)
  with my(2) have yhi: "y \<le> 2 ^ nat (bitlen m)" by linarith
  have "(2::real) ^ nat (bitlen m - 1) \<le> real_of_int m" using b(1) by simp
  with my(1) have ylo: "2 ^ nat (bitlen m - 1) < y" by linarith
  have e: "expo x = - bitlen m" using False by (simp add: expo_def m_def y_def)
  have "1 / 2 ^ nat (bitlen m) \<le> \<bar>x\<bar>"
    using yhi xpos by (simp add: y_def field_simps)
  then have lo: "pow2 (- bitlen m) \<le> \<bar>x\<bar>" using bl by (simp add: pow2_def)
  have hi0: "\<bar>x\<bar> < 1 / 2 ^ nat (bitlen m - 1)"
    using ylo xpos by (simp add: y_def field_simps)
  have "pow2 (- bitlen m + 1) = 1 / 2 ^ nat (bitlen m - 1)"
    using bl by (auto simp: pow2_def) 
  with hi0 have hi: "\<bar>x\<bar> < pow2 (- bitlen m + 1)" by simp
  show ?thesis using lo hi e by simp
qed

lemma expo_unique:
  assumes "x \<noteq> 0" "pow2 e \<le> \<bar>x\<bar>" "\<bar>x\<bar> < pow2 (e + 1)"
  shows "expo x = e"
proof -
  have b: "pow2 (expo x) \<le> \<bar>x\<bar>" "\<bar>x\<bar> < pow2 (expo x + 1)"
    using expo_bounds [OF assms(1)] by auto
  have "pow2 e < pow2 (expo x + 1)" using assms(2) b(2) by linarith
  then have 1: "e < expo x + 1" by (simp add: pow2_less_iff)
  have "pow2 (expo x) < pow2 (e + 1)" using assms(3) b(1) by linarith
  then have 2: "expo x < e + 1" by (simp add: pow2_less_iff)
  from 1 2 show ?thesis by linarith
qed



lemma rd_eval:
  assumes "x \<noteq> 0" "pow2 e \<le> \<bar>x\<bar>" "\<bar>x\<bar> < pow2 (e + 1)"
  shows "rd x =
     (let u = pow2 (max e (- 1022) - 52);
          y = of_int (round_half_even (x / u)) * u
      in if 2 ^ 1024 \<le> \<bar>y\<bar> then (if 0 < x then PInf else NInf) else Fin y)"
  using assms(1) expo_unique [OF assms] by (simp add: rd_def)

lemma rd_rel:
  assumes "pow2 (- 1022) \<le> \<bar>x\<bar>" "\<bar>x\<bar> \<le> 2 ^ 1023"
  shows "\<exists>t. rd x = Fin (x * t) \<and> 1 - 1 / 2 ^ 53 \<le> t \<and> t \<le> 1 + 1 / 2 ^ 53"
proof -
  have x0: "x \<noteq> 0"
  proof
    assume "x = 0"
    with assms(1) have "pow2 (- 1022) \<le> 0" by simp
    with pow2_pos [of "- 1022"] show False by linarith
  qed
  define e where "e = expo x"
  have b: "pow2 e \<le> \<bar>x\<bar>" "\<bar>x\<bar> < pow2 (e + 1)"
    using expo_bounds [OF x0] by (auto simp: e_def)
  have "pow2 (- 1022) < pow2 (e + 1)" using assms(1) b(2) by linarith
  then have e: "- 1022 \<le> e" by (simp add: pow2_less_iff)
  define u where "u = pow2 (e - 52)"
  have u: "0 < u" by (simp add: u_def)
  define k where "k = round_half_even (x / u)"
  define y where "y = of_int k * u"
  have "\<bar>of_int k - x / u\<bar> \<le> 1 / 2" unfolding k_def by (rule round_half_even_near)
  then have "\<bar>of_int k - x / u\<bar> * u \<le> 1 / 2 * u" using u by (simp only: mult_le_cancel_right_pos)
  moreover have "\<bar>of_int k - x / u\<bar> * u = \<bar>y - x\<bar>"
  proof -
    have "\<bar>of_int k - x / u\<bar> * u = \<bar>(of_int k - x / u) * u\<bar>"
      using u by (simp add: abs_mult)
    also have "(of_int k - x / u) * u = y - x"
      using u by (simp add: y_def left_diff_distrib)
    finally show ?thesis .
  qed
  ultimately have near: "\<bar>y - x\<bar> \<le> u / 2" by simp
  have "pow2 e = pow2 (e - 52) * pow2 52" using pow2_add [of "e - 52" 52] by simp
  then have ue: "u = pow2 e / 2 ^ 52" by (simp add: u_def pow2_def)
  have rel: "\<bar>y - x\<bar> \<le> \<bar>x\<bar> / 2 ^ 53"
    using near b(1) unfolding ue by (simp add: field_simps)
  have "\<bar>y\<bar> \<le> \<bar>x\<bar> + \<bar>x\<bar> / 2 ^ 53" using rel by linarith
  also have "\<dots> \<le> 2 ^ 1023 + 2 ^ 1023 / 2 ^ 53" using assms(2) by (simp add: field_simps)
  also have "\<dots> < 2 ^ 1024" by simp
  finally have fin: "\<not> 2 ^ 1024 \<le> \<bar>y\<bar>" by simp
  have rdx: "rd x = Fin y"
    using x0 e fin by (simp add: rd_def e_def [symmetric] Let_def u_def [symmetric]
        k_def [symmetric] y_def [symmetric] max_def)
  define t where "t = y / x"
  have yt: "y = x * t" using x0 by (simp add: t_def)
  have "\<bar>t - 1\<bar> = \<bar>y - x\<bar> / \<bar>x\<bar>"
    using x0 by (simp add: t_def abs_divide [symmetric] diff_divide_distrib del: abs_divide)
  also have "\<dots> \<le> (\<bar>x\<bar> / 2 ^ 53) / \<bar>x\<bar>"
    using rel x0 by (simp add: divide_right_mono)
  also have "\<dots> = 1 / 2 ^ 53" using x0 by simp
  finally have "\<bar>t - 1\<bar> \<le> 1 / 2 ^ 53" .
  then have "1 - 1 / 2 ^ 53 \<le> t \<and> t \<le> 1 + 1 / 2 ^ 53" by linarith
  with rdx yt show ?thesis by blast
qed

lemma q53_pos [simp]: "0 < q53" "0 \<le> q53" "q53 \<le> 1" "0 < q53 ^ k"
  by (simp_all add: q53_def)

lemma errf_pos: "errf k t \<Longrightarrow> 0 < t"
proof -
  assume "errf k t"
  then have "q53 ^ k \<le> t" by (simp add: errf_def)
  moreover have "0 < q53 ^ k" by simp
  ultimately show ?thesis by linarith
qed

lemma errf_0: "errf 0 1"
  by (simp add: errf_def)

lemma errf_1: "1 - 1 / 2 ^ 53 \<le> t \<Longrightarrow> t \<le> 1 + 1 / 2 ^ 53 \<Longrightarrow> errf 1 t"
proof -
  assume a: "1 - 1 / 2 ^ 53 \<le> t" "t \<le> 1 + 1 / 2 ^ 53"
  have "t * q53 \<le> (1 + 1 / 2 ^ 53) * q53"
    using a(2) by (intro mult_right_mono) simp_all
  also have "\<dots> \<le> 1" by (simp add: q53_def)
  finally show ?thesis using a(1) by (simp add: errf_def q53_def)
qed

lemma errf_mult:
  assumes "errf a s" "errf b t"
  shows "errf (a + b) (s * t)"
proof -
  let ?q = "q53"
  have q: "0 < ?q ^ a" "0 < ?q ^ b" by simp_all
  have s: "?q ^ a \<le> s" "s * ?q ^ a \<le> 1" and t: "?q ^ b \<le> t" "t * ?q ^ b \<le> 1"
    using assms by (simp_all add: errf_def)
  have sp: "0 < s" and tp: "0 < t" using assms errf_pos by blast+
  have "?q ^ a * ?q ^ b \<le> s * t"
    using s(1) t(1) q sp tp by (intro mult_mono) simp_all
  moreover have "(s * ?q ^ a) * (t * ?q ^ b) \<le> 1 * 1"
    using s(2) t(2) sp tp q by (intro mult_mono) simp_all
  ultimately show ?thesis by (simp add: errf_def power_add mult_ac)
qed

lemma errf_inverse:
  assumes "errf a s"
  shows "errf a (1 / s)"
proof -
  let ?q = "q53"
  have q: "0 < ?q ^ a" by simp
  have s: "?q ^ a \<le> s" "s * ?q ^ a \<le> 1" using assms by (simp_all add: errf_def)
  have sp: "0 < s" using assms errf_pos by blast
  have "?q ^ a \<le> 1 / s" using s(2) sp by (simp add: field_simps)
  moreover have "1 / s * ?q ^ a \<le> 1" using s(1) sp by (simp add: field_simps)
  ultimately show ?thesis by (simp add: errf_def)
qed

lemma errf_divide:
  assumes "errf a s" "errf b t"
  shows "errf (a + b) (s / t)"
  using errf_mult [OF assms(1) errf_inverse [OF assms(2)]] by simp

lemma errf_mono: "errf a t \<Longrightarrow> a \<le> b \<Longrightarrow> errf b t"
proof -
  assume a: "errf a t" "a \<le> b"
  let ?q = "q53"
  have le: "?q ^ b \<le> ?q ^ a" using a(2) by (intro power_decreasing) simp_all
  have tp: "0 < t" using a(1) errf_pos by blast
  have "t * ?q ^ b \<le> t * ?q ^ a" using le tp by simp
  moreover have "?q ^ a \<le> t" "t * ?q ^ a \<le> 1" using a(1) by (simp_all add: errf_def)
  ultimately show ?thesis using le unfolding errf_def by linarith
qed

lemma errf_8_bounds:
  assumes "errf 8 t"
  shows "1 - 1 / 2 ^ 50 \<le> t" "t \<le> 1 + 1 / 2 ^ 49"
proof -
  let ?q = "q53"
  have t: "?q ^ 8 \<le> t" "t * ?q ^ 8 \<le> 1" using assms by (simp_all add: errf_def)
  have "1 - 1 / 2 ^ 50 \<le> ?q ^ 8" by (simp add: q53_def power_divide)
  with t(1) show "1 - 1 / 2 ^ 50 \<le> t" by linarith
  have "1 \<le> (1 + 1 / 2 ^ 49) * ?q ^ 8" by (simp add: q53_def power_divide)
  with t(2) have "t * ?q ^ 8 \<le> (1 + 1 / 2 ^ 49) * ?q ^ 8" by linarith
  then show "t \<le> 1 + 1 / 2 ^ 49"
    using q53_pos(4) [of 8] by (simp only: mult_le_cancel_right_pos)
qed

lemma rng_pos: "rng k x \<Longrightarrow> 0 < x"
proof -
  assume "rng k x"
  then have "1 / 2 ^ k \<le> x" by (simp add: rng_def)
  moreover have "(0::real) < 1 / 2 ^ k" by simp
  ultimately show ?thesis by linarith
qed

lemma rng_mono: "rng a x \<Longrightarrow> a \<le> b \<Longrightarrow> rng b x"
proof -
  assume a: "rng a x" "a \<le> b"
  have 1: "(2::real) ^ a \<le> 2 ^ b" using a(2) by (intro power_increasing) simp_all
  then have 2: "(1::real) / 2 ^ b \<le> 1 / 2 ^ a" by (simp add: field_simps)
  from a(1) have "1 / 2 ^ a \<le> x" "x \<le> 2 ^ a" by (simp_all add: rng_def)
  with 1 2 show ?thesis unfolding rng_def by linarith
qed

lemma rng_mult:
  assumes "rng a x" "rng b y"
  shows "rng (a + b) (x * y)"
proof -
  have x: "1 / 2 ^ a \<le> x" "x \<le> 2 ^ a" and y: "1 / 2 ^ b \<le> y" "y \<le> 2 ^ b"
    using assms by (simp_all add: rng_def)
  have xp: "0 < x" and yp: "0 < y" using assms rng_pos by blast+
  have "(1 / 2 ^ a) * (1 / 2 ^ b) \<le> x * y"
    using x(1) y(1) xp yp by (intro mult_mono) simp_all
  moreover have "x * y \<le> 2 ^ a * 2 ^ b"
    using x(2) y(2) xp yp by (intro mult_mono) simp_all
  ultimately show ?thesis by (simp add: rng_def power_add)
qed

lemma rng_inverse:
  assumes "rng a x"
  shows "rng a (1 / x)"
proof -
  have x: "1 / 2 ^ a \<le> x" "x \<le> 2 ^ a" using assms by (simp_all add: rng_def)
  have xp: "0 < x" using assms rng_pos by blast
  have "1 / 2 ^ a \<le> 1 / x" using x(2) xp by (simp add: field_simps)
  moreover have "1 / x \<le> 2 ^ a" using x(1) xp by (simp add: field_simps)
  ultimately show ?thesis by (simp add: rng_def)
qed

lemma rng_divide:
  assumes "rng a x" "rng b y"
  shows "rng (a + b) (x / y)"
  using rng_mult [OF assms(1) rng_inverse [OF assms(2)]] by simp

lemma rng_errf:
  assumes "errf k t" "k \<le> 8"
  shows "rng 1 t"
proof -
  have "errf 8 t" using assms by (rule errf_mono)
  then have "1 - 1 / 2 ^ 50 \<le> t" "t \<le> 1 + 1 / 2 ^ 49" by (rule errf_8_bounds)+
  then show ?thesis by (simp add: rng_def)
qed

text \<open>A float operation whose exact result is in the normal range.\<close>

lemma rd_rng:
  assumes "rng k \<bar>x\<bar>" "k \<le> 1022"
  shows "\<exists>t. errf 1 t \<and> rd x = Fin (x * t)"
proof -
  have "rng 1022 \<bar>x\<bar>" using assms by (rule rng_mono)
  then have x: "1 / 2 ^ 1022 \<le> \<bar>x\<bar>" "\<bar>x\<bar> \<le> 2 ^ 1022" by (simp_all add: rng_def)
  have "pow2 (- 1022) \<le> \<bar>x\<bar>" using x(1) by (simp add: pow2_def)
  moreover have "\<bar>x\<bar> \<le> 2 ^ 1023" using x(2) by simp
  ultimately obtain t where "rd x = Fin (x * t)" "1 - 1 / 2 ^ 53 \<le> t" "t \<le> 1 + 1 / 2 ^ 53"
    using rd_rel [of x] by blast
  then show ?thesis using errf_1 by blast
qed

lemma errf_1_bounds:
  assumes "errf 1 t"
  shows "\<bar>t - 1\<bar> \<le> 1 / 2 ^ 52"
proof -
  have t: "q53 \<le> t" "t * q53 \<le> 1" using assms by (simp_all add: errf_def)
  have "1 - 1 / 2 ^ 52 \<le> q53" by (simp add: q53_def)
  with t(1) have lo: "1 - 1 / 2 ^ 52 \<le> t" by linarith
  have "1 \<le> (1 + 1 / 2 ^ 52) * q53" by (simp add: q53_def)
  with t(2) have "t * q53 \<le> (1 + 1 / 2 ^ 52) * q53" by linarith
  then have "t \<le> 1 + 1 / 2 ^ 52"
    using q53_pos(1) by (simp only: mult_le_cancel_right_pos)
  with lo show ?thesis by linarith
qed

lemma rd_rng_pos:
  assumes "rng k x" "k \<le> 1022"
  shows "\<exists>t. errf 1 t \<and> rd x = Fin (x * t)"
proof -
  have "0 < x" using assms(1) by (rule rng_pos)
  then have "rng k \<bar>x\<bar>" using assms(1) by simp
  then show ?thesis using assms(2) by (rule rd_rng)
qed

section \<open>Position sizing: theorems\<close>

text \<open>
  The float operations of the sizer up to the rounding to three decimals, for inputs of
  moderate size: every operation stays in the normal range, and the product that is
  rounded in the end is the exact quotient of the specification times a factor of seven
  rounding errors.
\<close>

lemma sizer_core:
  assumes bal: "rng 53 (of_int bal)" and lv: "rng 53 (of_int lv)"
    and rp: "rng 100 rp" and es: "rng 100 \<bar>e - s\<bar>"
  shows "\<exists>c a ra d q l p T.
      rd (of_int bal) = Fin c \<and> rd (rp / 100) = Fin a \<and> rd (c * a) = Fin ra
      \<and> rd (e - s) = Fin d \<and> d \<noteq> 0 \<and> rd (ra / \<bar>d\<bar>) = Fin q
      \<and> rd (of_int lv) = Fin l \<and> rd (q * l) = Fin p
      \<and> errf 7 T \<and> p = spec_size (of_int bal) rp (of_int lv) e s * T \<and> rng 320 p"
proof -
  have balp: "0 < real_of_int bal" and lvp: "0 < real_of_int lv"
    using bal lv rng_pos by blast+
  have "\<exists>t. errf 1 t \<and> rd (of_int bal) = Fin (of_int bal * t)"
    by (rule rd_rng_pos [OF bal]) simp
  then obtain t1 where t1: "errf 1 t1" "rd (of_int bal) = Fin (of_int bal * t1)" by blast
  define c where "c = real_of_int bal * t1"
  have c: "rng 54 c"
    using rng_mult [OF bal rng_errf [OF t1(1)]] by (simp add: c_def)
  have "rng 7 (100::real)" by (simp add: rng_def)
  then have rp100: "rng 107 (rp / 100)" using rng_divide [OF rp] by fastforce
  then have rpp: "0 < rp / 100" by (rule rng_pos)
  have "\<exists>t. errf 1 t \<and> rd (rp / 100) = Fin (rp / 100 * t)"
    by (rule rd_rng_pos [OF rp100]) simp
  then obtain t2 where t2: "errf 1 t2" "rd (rp / 100) = Fin (rp / 100 * t2)" by blast
  define a where "a = rp / 100 * t2"
  have a: "rng 108 a"
    using rng_mult [OF rp100 rng_errf [OF t2(1)]] by (simp add: a_def)
  have ca: "rng 162 (c * a)" using rng_mult [OF c a] by simp
  then have cap: "0 < c * a" by (rule rng_pos)
  have "\<exists>t. errf 1 t \<and> rd (c * a) = Fin (c * a * t)"
    by (rule rd_rng_pos [OF ca]) simp
  then obtain t3 where t3: "errf 1 t3" "rd (c * a) = Fin (c * a * t3)" by blast
  define ra where "ra = c * a * t3"
  have ra: "rng 163 ra"
    using rng_mult [OF ca rng_errf [OF t3(1)]] by (simp add: ra_def)
  have "\<exists>t. errf 1 t \<and> rd (e - s) = Fin ((e - s) * t)"
    by (rule rd_rng [OF es]) simp
  then obtain t4 where t4: "errf 1 t4" "rd (e - s) = Fin ((e - s) * t4)" by blast
  define d where "d = (e - s) * t4"
  have t4p: "0 < t4" using t4(1) by (rule errf_pos)
  have absd: "\<bar>d\<bar> = \<bar>e - s\<bar> * t4" using t4p by (simp add: d_def abs_mult)
  have dr: "rng 101 \<bar>d\<bar>"
    using rng_mult [OF es rng_errf [OF t4(1)]] by (simp add: absd)
  then have dp: "0 < \<bar>d\<bar>" by (rule rng_pos)
  then have dne: "d \<noteq> 0" by simp
  have rd0: "rng 264 (ra / \<bar>d\<bar>)" using rng_divide [OF ra dr] by simp
  then have rdp: "0 < ra / \<bar>d\<bar>" by (rule rng_pos)
  have "\<exists>t. errf 1 t \<and> rd (ra / \<bar>d\<bar>) = Fin (ra / \<bar>d\<bar> * t)"
    by (rule rd_rng_pos [OF rd0]) simp
  then obtain t5 where t5: "errf 1 t5" "rd (ra / \<bar>d\<bar>) = Fin (ra / \<bar>d\<bar> * t5)" by blast
  define q where "q = ra / \<bar>d\<bar> * t5"
  have q: "rng 265 q"
    using rng_mult [OF rd0 rng_errf [OF t5(1)]] by (simp add: q_def)
  have "\<exists>t. errf 1 t \<and> rd (of_int lv) = Fin (of_int lv * t)"
    by (rule rd_rng_pos [OF lv]) simp
  then obtain t6 where t6: "errf 1 t6" "rd (of_int lv) = Fin (of_int lv * t6)" by blast
  define l where "l = real_of_int lv * t6"
  have l: "rng 54 l"
    using rng_mult [OF lv rng_errf [OF t6(1)]] by (simp add: l_def)
  have ql: "rng 319 (q * l)" using rng_mult [OF q l] by simp
  then have qlp: "0 < q * l" by (rule rng_pos)
  have "\<exists>t. errf 1 t \<and> rd (q * l) = Fin (q * l * t)"
    by (rule rd_rng_pos [OF ql]) simp
  then obtain t7 where t7: "errf 1 t7" "rd (q * l) = Fin (q * l * t7)" by blast
  define p where "p = q * l * t7"
  have p: "rng 320 p"
    using rng_mult [OF ql rng_errf [OF t7(1)]] by (simp add: p_def)
  define T where "T = t1 * t2 * t3 / t4 * t5 * t6 * t7"
  have e2: "errf 2 (t1 * t2)"
    by (rule errf_mono [OF errf_mult [OF t1(1) t2(1)]]) simp
  have e3: "errf 3 (t1 * t2 * t3)"
    by (rule errf_mono [OF errf_mult [OF e2 t3(1)]]) simp
  have e4: "errf 4 (t1 * t2 * t3 / t4)"
    by (rule errf_mono [OF errf_divide [OF e3 t4(1)]]) simp
  have e5: "errf 5 (t1 * t2 * t3 / t4 * t5)"
    by (rule errf_mono [OF errf_mult [OF e4 t5(1)]]) simp
  have e6: "errf 6 (t1 * t2 * t3 / t4 * t5 * t6)"
    by (rule errf_mono [OF errf_mult [OF e5 t6(1)]]) simp
  have T: "errf 7 T" unfolding T_def
    by (rule errf_mono [OF errf_mult [OF e6 t7(1)]]) simp
  have esp: "0 < \<bar>e - s\<bar>" using es by (rule rng_pos)
  have "p = spec_size (of_int bal) rp (of_int lv) e s * T"
    using t4p esp
    by (simp add: p_def q_def ra_def c_def a_def l_def absd T_def spec_size_def field_simps)
  with t1(2) t2(2) t3(2) t4(2) t5(2) t6(2) t7(2) dne T p show ?thesis
    unfolding c_def [symmetric] a_def [symmetric] ra_def [symmetric] d_def [symmetric]
      q_def [symmetric] l_def [symmetric] p_def [symmetric]
    by blast
qed

text \<open>The rounding to three decimals, of Python and of numpy.\<close>

lemma round_half_even_nonneg: "0 \<le> y \<Longrightarrow> 0 \<le> round_half_even y"
  unfolding round_half_even_def Let_def by (simp; linarith)

lemma rd_thousandth:
  assumes "0 \<le> k" and "real_of_int k / 1000 \<le> 2 ^ 1000"
  shows "\<exists>r. rd (of_int k / 1000) = Fin r \<and> \<bar>r - of_int k / 1000\<bar> \<le> (of_int k / 1000) / 2 ^ 52"
proof (cases "k = 0")
  case True
  then show ?thesis by (simp add: rd_def)
next
  case False
  define z where "z = real_of_int k / 1000"
  have "1 \<le> k" using assms(1) False by linarith
  then have "1 \<le> real_of_int k" by simp
  then have "1 / 2 ^ 10 \<le> z" by (simp add: z_def)
  moreover have "(1::real) / 2 ^ 1000 \<le> 1 / 2 ^ 10" by simp
  ultimately have "rng 1000 z" using assms(2) unfolding rng_def z_def by linarith
  then have "\<exists>t. errf 1 t \<and> rd z = Fin (z * t)" by (rule rd_rng_pos) simp
  then obtain t where t: "errf 1 t" "rd z = Fin (z * t)" by blast
  have zp: "0 \<le> z" using assms(1) by (simp add: z_def)
  have "\<bar>z * t - z\<bar> = z * \<bar>t - 1\<bar>"
  proof -
    have "z * t - z = z * (t - 1)" by (simp add: algebra_simps)
    then show ?thesis using zp by (simp add: abs_mult)
  qed
  also have "\<dots> \<le> z * (1 / 2 ^ 52)"
    using errf_1_bounds [OF t(1)] zp by (intro mult_left_mono) simp_all
  finally have "\<bar>z * t - z\<bar> \<le> z / 2 ^ 52" by simp
  with t(2) show ?thesis unfolding z_def by blast
qed

lemma py_round_near:
  assumes "rng 320 p"
  shows "\<exists>r. py_round (Fin p) 3 = Fin r \<and> \<bar>r - p\<bar> \<le> 1 / 2000 + (p + 1) / 2 ^ 50"
proof -
  have pp: "0 < p" using assms by (rule rng_pos)
  have pu: "p \<le> 2 ^ 320" using assms by (simp add: rng_def)
  define k where "k = round_half_even (p * 1000)"
  define z where "z = real_of_int k / 1000"
  have k0: "0 \<le> k" unfolding k_def using pp by (intro round_half_even_nonneg) simp
  have "\<bar>of_int k - p * 1000\<bar> \<le> 1 / 2" unfolding k_def by (rule round_half_even_near)
  then have zp: "\<bar>z - p\<bar> \<le> 1 / 2000" by (simp add: z_def field_simps abs_le_iff)
  have zu: "z \<le> p + 1" "0 \<le> z"
  proof -
    show "z \<le> p + 1" using zp by linarith
    show "0 \<le> z" using k0 by (simp add: z_def)
  qed
  have "(2::real) ^ 320 + 1 \<le> 2 ^ 1000" by simp
  with zu(1) pu have "z \<le> 2 ^ 1000" by linarith
  then obtain r where r: "rd z = Fin r" "\<bar>r - z\<bar> \<le> z / 2 ^ 52"
    using rd_thousandth [OF k0] unfolding z_def by blast
  have "z / 2 ^ 52 \<le> (p + 1) / 2 ^ 52" using zu(1) by (simp add: divide_right_mono)
  also have "\<dots> \<le> (p + 1) / 2 ^ 50" using pp by (simp add: field_simps)
  finally have "\<bar>r - z\<bar> \<le> (p + 1) / 2 ^ 50" using r(2) by linarith
  with zp have "\<bar>r - p\<bar> \<le> 1 / 2000 + (p + 1) / 2 ^ 50" by linarith
  moreover have "py_round (Fin p) 3 = Fin r" using r(1) by (simp add: k_def z_def)
  ultimately show ?thesis by blast
qed

lemma np_round_near:
  assumes "rng 320 p"
  shows "\<exists>r. np_round (Fin p) 3 = Fin r \<and> \<bar>r - p\<bar> \<le> 1 / 2000 + (p + 1) / 2 ^ 50"
proof -
  have pp: "0 < p" using assms by (rule rng_pos)
  have pu: "p \<le> 2 ^ 320" using assms by (simp add: rng_def)
  have "rng 10 (1000::real)" by (simp add: rng_def)
  then have m: "rng 330 (p * 1000)" using rng_mult [OF assms] by fastforce
  then have "\<exists>t. errf 1 t \<and> rd (p * 1000) = Fin (p * 1000 * t)" by (rule rd_rng_pos) simp
  then obtain t where t: "errf 1 t" "rd (p * 1000) = Fin (p * 1000 * t)" by blast
  define y where "y = p * 1000 * t"
  have tp: "0 < t" using t(1) by (rule errf_pos)
  have yp: "0 \<le> y" using pp tp by (simp add: y_def)
  have tb: "\<bar>t - 1\<bar> \<le> 1 / 2 ^ 52" using t(1) by (rule errf_1_bounds)
  have "\<bar>y / 1000 - p\<bar> = p * \<bar>t - 1\<bar>"
  proof -
    have "y / 1000 - p = p * (t - 1)" by (simp add: y_def algebra_simps)
    then show ?thesis using pp by (simp add: abs_mult)
  qed
  also have "\<dots> \<le> p * (1 / 2 ^ 52)" using tb pp by (intro mult_left_mono) simp_all
  finally have yn: "\<bar>y / 1000 - p\<bar> \<le> p / 2 ^ 52" by simp
  define k where "k = round_half_even y"
  define z where "z = real_of_int k / 1000"
  have k0: "0 \<le> k" unfolding k_def using yp by (rule round_half_even_nonneg)
  have "\<bar>of_int k - y\<bar> \<le> 1 / 2" unfolding k_def by (rule round_half_even_near)
  then have zy: "\<bar>z - y / 1000\<bar> \<le> 1 / 2000" by (simp add: z_def field_simps abs_le_iff)
  have "p / 2 ^ 52 \<le> p" using pp by (simp add: field_simps)
  with yn zy have zu: "z \<le> 2 * p + 1" by linarith
  have "2 * (2::real) ^ 320 + 1 \<le> 2 ^ 1000" by simp
  with zu pu have "z \<le> 2 ^ 1000" by linarith
  then obtain r where r: "rd z = Fin r" "\<bar>r - z\<bar> \<le> z / 2 ^ 52"
    using rd_thousandth [OF k0] unfolding z_def by blast
  have "z / 2 ^ 52 \<le> (2 * p + 1) / 2 ^ 52" using zu by (simp add: divide_right_mono)
  with r(2) have rz: "\<bar>r - z\<bar> \<le> (2 * p + 1) / 2 ^ 52" by linarith
  have "p / 2 ^ 52 + (2 * p + 1) / 2 ^ 52 \<le> (p + 1) / 2 ^ 50"
    using pp by (simp add: field_simps)
  with rz zy yn have "\<bar>r - p\<bar> \<le> 1 / 2000 + (p + 1) / 2 ^ 50" by linarith
  moreover have "np_round (Fin p) 3 = Fin r"
    using r(1) t(2) by (simp add: np_round_def y_def k_def z_def)
  ultimately show ?thesis by blast
qed

lemma sizer_bound:
  assumes "errf 7 T" and "p = S * T" and "0 < S"
    and "\<bar>r - p\<bar> \<le> 1 / 2000 + (p + 1) / 2 ^ 50"
  shows "\<bar>r - S\<bar> \<le> 1 / 2000 + (S + 1) / 2 ^ 48"
proof -
  have "errf 8 T" using assms(1) by (rule errf_mono) simp
  then have T: "1 - 1 / 2 ^ 50 \<le> T" "T \<le> 1 + 1 / 2 ^ 49" by (rule errf_8_bounds)+
  have "\<bar>p - S\<bar> = S * \<bar>T - 1\<bar>"
  proof -
    have "p - S = S * (T - 1)" by (simp add: assms(2) algebra_simps)
    then show ?thesis using assms(3) by (simp add: abs_mult)
  qed
  also have "\<dots> \<le> S * (1 / 2 ^ 49)"
  proof -
    have "(1::real) / 2 ^ 50 \<le> 1 / 2 ^ 49" by simp
    with T have "\<bar>T - 1\<bar> \<le> 1 / 2 ^ 49" by linarith
    then show ?thesis using assms(3) by (intro mult_left_mono) simp_all
  qed
  finally have ps: "\<bar>p - S\<bar> \<le> S / 2 ^ 49" by simp
  have "S / 2 ^ 49 \<le> S" using assms(3) by (simp add: field_simps)
  with ps have "p \<le> 2 * S" by linarith
  then have "(p + 1) / 2 ^ 50 \<le> (2 * S + 1) / 2 ^ 50" by (simp add: divide_right_mono)
  moreover have "S / 2 ^ 49 + (2 * S + 1) / 2 ^ 50 \<le> (S + 1) / 2 ^ 48"
    using assms(3) by (simp add: field_simps)
  ultimately show ?thesis using ps assms(4) by linarith
qed

lemma int_rng:
  assumes "1 \<le> n" "n \<le> 2 ^ 53"
  shows "rng 53 (real_of_int n)"
proof -
  have "1 \<le> real_of_int n" using assms(1) by simp
  moreover have "real_of_int n \<le> 2 ^ 53"
    using assms(2) by (simp only: of_int_le_numeral_power_cancel_iff)
  moreover have "(1::real) / 2 ^ 53 \<le> 1" by simp
  ultimately show ?thesis unfolding rng_def by linarith
qed

text \<open>
  The sizer on inputs of moderate size: the result is a finite float of the kind of the
  arguments, and it differs from the exact quotient of the specification by at most half
  a thousandth and the rounding errors of the float operations.
\<close>

lemma calculate_position_size_near:
  assumes e: "sval e = Fin x" and sl: "sval sl = Fin y"
    and bal: "1 \<le> balance b" "balance b \<le> 2 ^ 53"
    and lv: "1 \<le> leverage (config b)" "leverage (config b) \<le> 2 ^ 53"
    and rp: "1 / 2 ^ 100 \<le> risk_percent (config b)" "risk_percent (config b) \<le> 2 ^ 100"
    and xy: "1 / 2 ^ 100 \<le> \<bar>x - y\<bar>" "\<bar>x - y\<bar> \<le> 2 ^ 100"
  shows "\<exists>r. calculate_position_size b e sl =
            Inr (if is_py e \<and> is_py sl then PyFloat (Fin r) else NpFloat (Fin r))
        \<and> \<bar>r - spec_size (of_int (balance b)) (risk_percent (config b))
                  (of_int (leverage (config b))) x y\<bar>
          \<le> 1 / 2000 + (spec_size (of_int (balance b)) (risk_percent (config b))
                  (of_int (leverage (config b))) x y + 1) / 2 ^ 48"
proof -
  let ?S = "spec_size (of_int (balance b)) (risk_percent (config b))
              (of_int (leverage (config b))) x y"
  have rb: "rng 53 (real_of_int (balance b))" using bal by (rule int_rng)
  have rl: "rng 53 (real_of_int (leverage (config b)))" using lv by (rule int_rng)
  have rr: "rng 100 (risk_percent (config b))" using rp by (simp add: rng_def)
  have rx: "rng 100 \<bar>x - y\<bar>" using xy by (simp add: rng_def)
  obtain c a ra d q l p T where core:
    "rd (of_int (balance b)) = Fin c" "rd (risk_percent (config b) / 100) = Fin a"
    "rd (c * a) = Fin ra" "rd (x - y) = Fin d" "d \<noteq> 0" "rd (ra / \<bar>d\<bar>) = Fin q"
    "rd (of_int (leverage (config b))) = Fin l" "rd (q * l) = Fin p"
    "errf 7 T" "p = ?S * T" "rng 320 p"
    using sizer_core [OF rb rl rr rx] by blast
  have Sp: "0 < ?S"
    using rng_pos [OF rb] rng_pos [OF rl] rng_pos [OF rr] rng_pos [OF rx]
    by (simp add: spec_size_def)
  obtain r1 where r1: "py_round (Fin p) 3 = Fin r1" "\<bar>r1 - p\<bar> \<le> 1 / 2000 + (p + 1) / 2 ^ 50"
    using py_round_near [OF core(11)] by blast
  obtain r2 where r2: "np_round (Fin p) 3 = Fin r2" "\<bar>r2 - p\<bar> \<le> 1 / 2000 + (p + 1) / 2 ^ 50"
    using np_round_near [OF core(11)] by blast
  have b1: "\<bar>r1 - ?S\<bar> \<le> 1 / 2000 + (?S + 1) / 2 ^ 48"
    using core(9,10) Sp r1(2) by (rule sizer_bound)
  have b2: "\<bar>r2 - ?S\<bar> \<le> 1 / 2000 + (?S + 1) / 2 ^ 48"
    using core(9,10) Sp r2(2) by (rule sizer_bound)
  have "calculate_position_size b e sl =
          Inr (if is_py e \<and> is_py sl then PyFloat (Fin r1) else NpFloat (Fin r2))"
    using e sl core(1-8) r1(1) r2(1)
    by (cases e; cases sl)
       (simp_all add: calculate_position_size_def float_of_int_def fsub_def Let_def
          del: py_round.simps)
  with b1 b2 show ?thesis by (cases "is_py e \<and> is_py sl") auto
qed

text \<open>Floats that the examples meet.\<close>

lemma rd_exact:
  assumes "pow2 e \<le> \<bar>x\<bar>" "\<bar>x\<bar> < pow2 (e + 1)" "- 1022 \<le> e" "e \<le> 1023"
    and "x / pow2 (e - 52) = of_int m"
  shows "rd x = Fin x"
proof -
  have x0: "x \<noteq> 0"
  proof
    assume "x = 0"
    with assms(1) have "pow2 e \<le> 0" by simp
    with pow2_pos [of e] show False by linarith
  qed
  have "pow2 (e + 1) \<le> pow2 1024" using assms(4) by (intro pow2_mono) simp
  then have "\<bar>x\<bar> < 2 ^ 1024" using assms(2) by (simp add: pow2_def)
  moreover have "of_int m * pow2 (e - 52) = x"
    using assms(5) pow2_pos [of "e - 52"] by (simp add: field_simps)
  ultimately show ?thesis
    using rd_eval [OF x0 assms(1,2)] assms(3,5) by (simp add: max_def)
qed

lemma rd_10 [simp]: "rd 10 = Fin 10"
  by (rule rd_exact [of 3 _ "10 * 2 ^ 49"]) (simp_all add: pow2_def)

lemma rd_100 [simp]: "rd 100 = Fin 100"
  by (rule rd_exact [of 6 _ "100 * 2 ^ 46"]) (simp_all add: pow2_def)

lemma rd_10000 [simp]: "rd 10000 = Fin 10000"
  by (rule rd_exact [of 13 _ "10000 * 2 ^ 39"]) (simp_all add: pow2_def)

lemma rd_400000 [simp]: "rd 400000 = Fin 400000"
  by (rule rd_exact [of 18 _ "400000 * 2 ^ 34"]) (simp_all add: pow2_def)

lemma rd_hundredth: "rd (1 / 100) = Fin (5764607523034235 / 2 ^ 59)"
  using rd_eval [of "1 / 100" "- 7"]
  by (simp add: pow2_def round_half_even_def Let_def)

lemma rd_risk_amount: "rd (10000 * (5764607523034235 / 2 ^ 59)) = Fin 100"
  using rd_eval [of "10000 * (5764607523034235 / 2 ^ 59)" 6]
  by (simp add: pow2_def round_half_even_def Let_def)

text \<open>
  The risk amount of the default configuration: \<open>1 / 100\<close> is not a float, and its float
  times 10000 rounds to 100.
\<close>

lemma default_risk_amount:
  "rnd (fmul (Fin 10000) (rd (1 / 100))) = Fin 100"
  using rd_risk_amount by (simp add: rd_hundredth)

lemma sizer_example:
  "calculate_position_size (TradingBot_init (cfg\<lparr>risk_percent := 1, leverage := 10\<rparr>))
     (PyFloat (Fin 100)) (PyFloat (Fin 90)) = Inr (PyFloat (Fin 100))"
proof -
  have "round_half_even 100000 = 100000"
    using round_half_even_int [of 100000] by simp
  then show ?thesis
    using default_risk_amount
    by (simp add: calculate_position_size_def float_of_int_def TradingBot_init_def fsub_def)
qed



lemma rd_tiny: "rd (1 / 2 ^ 1074) = Fin (1 / 2 ^ 1074)"
  using rd_eval [of "1 / 2 ^ 1074" "- 1074"] round_half_even_int [of 1]
  by (simp add: pow2_def)

lemma rd_overflow: "rd (100 * 2 ^ 1074) = PInf"
  using rd_eval [of "100 * 2 ^ 1074" 1080] round_half_even_int [of "100 * 2 ^ 46"]
  by (simp add: pow2_def)

lemma rd_quotient: "rd (1 / 4000) = Fin (4611686018427388 / 2 ^ 64)"
  using rd_eval [of "1 / 4000" "- 12"]
  by (simp add: pow2_def round_half_even_def Let_def)

lemma rd_product: "rd (4611686018427388 / 2 ^ 64 * 10) = Fin (5764607523034235 / 2 ^ 61)"
  using rd_eval [of "4611686018427388 / 2 ^ 64 * 10" "- 9"]
    round_half_even_int [of 5764607523034235]
  by (simp add: pow2_def)

lemma rd_three_thousandths: "rd (3 / 1000) = Fin (6917529027641082 / 2 ^ 61)"
  using rd_eval [of "3 / 1000" "- 9"]
  by (simp add: pow2_def round_half_even_def Let_def)

lemma round_half_even_above: "round_half_even (5764607523034235 / 2 ^ 61 * 1000) = 3"
  by (simp add: round_half_even_def Let_def)


text \<open>Infinities and not-a-number stay what they are under the operations of the sizer.\<close>

lemma nonfinite_cases: "(\<forall>r. v \<noteq> Fin r) \<longleftrightarrow> v = PInf \<or> v = NInf \<or> v = NaN"
  by (cases v) simp_all

lemma fdiv_zero_nonfinite: "\<forall>r. fdiv q (Fin 0) \<noteq> Fin r"
  by (cases q) simp_all

lemma rnd_nonfinite: "\<forall>r. v \<noteq> Fin r \<Longrightarrow> rnd v = v"
  by (cases v) simp_all

lemma fmul_nonfinite: "\<forall>r. v \<noteq> Fin r \<Longrightarrow> \<forall>r. fmul v (Fin c) \<noteq> Fin r"
  by (cases v) simp_all

lemma fdiv_nonfinite: "\<forall>r. v \<noteq> Fin r \<Longrightarrow> \<forall>r. fdiv v (Fin c) \<noteq> Fin r"
  by (cases v) simp_all

lemma np_rint_nonfinite: "\<forall>r. v \<noteq> Fin r \<Longrightarrow> np_rint v = v"
  by (cases v) simp_all

lemma np_round_nonfinite:
  assumes "\<forall>r. v \<noteq> Fin r"
  shows "\<forall>r. np_round v nd \<noteq> Fin r"
proof -
  have 1: "\<forall>r. fmul v (Fin (10 ^ nd)) \<noteq> Fin r" using assms by (rule fmul_nonfinite)
  have 2: "np_rint (rnd (fmul v (Fin (10 ^ nd)))) = fmul v (Fin (10 ^ nd))"
    using 1 by (simp add: rnd_nonfinite np_rint_nonfinite)
  have 3: "\<forall>r. fdiv (fmul v (Fin (10 ^ nd))) (Fin (10 ^ nd)) \<noteq> Fin r"
    using 1 by (rule fdiv_nonfinite)
  show ?thesis unfolding np_round_def 2 using 3 by (simp add: rnd_nonfinite)
qed

lemma float_of_int_cases:
  "float_of_int n = Inl OverflowError \<or> (\<exists>y. float_of_int n = Inr (Fin y))"
  by (cases "rd (of_int n)") (simp_all add: float_of_int_def)

text \<open>
  The size on a zero stop distance when a \<open>numpy.float64\<close> is among entry and stop: the
  division, the product and the rounding give an infinity or not-a-number.
\<close>

lemma zero_distance_size:
  "\<forall>r. np_round (rnd (fmul (rnd (fdiv q (Fin 0))) (Fin l))) 3 \<noteq> Fin r"
proof -
  define v where "v = fdiv q (Fin 0)"
  have 1: "\<forall>r. v \<noteq> Fin r" unfolding v_def by (rule fdiv_zero_nonfinite)
  have 2: "\<forall>r. fmul v (Fin l) \<noteq> Fin r" using 1 by (rule fmul_nonfinite)
  have "\<forall>r. np_round (fmul v (Fin l)) 3 \<noteq> Fin r" using 2 by (rule np_round_nonfinite)
  then show ?thesis
    unfolding v_def [symmetric] rnd_nonfinite [OF 1] rnd_nonfinite [OF 2] .
qed

text \<open>
  C3, as the code has it. On a zero stop distance between finite values the sizer has no
  guard and divides. With two Python floats the division raises \<open>ZeroDivisionError\<close>;
  \<open>execute_trade\<close> catches it, logs the error and returns \<open>False\<close>, so the trade is
  skipped. With a \<open>numpy.float64\<close> among the two, which is what a detector's signal
  holds, nothing is raised: the size is an infinity or not-a-number and \<open>execute_trade\<close>
  logs the trade as executed with it and returns \<open>True\<close>. This is so for every balance
  and leverage that are in the range of the floats, as 10000 and 10 are; a balance beyond
  it raises \<open>OverflowError\<close> before the division and a leverage beyond it after the
  division, and \<open>execute_trade\<close> catches that too.
\<close>

theorem zero_stop_distance:
  assumes "sval (entry s) = Fin x" and "sval (stop_loss s) = Fin x"
  shows "if float_of_int (balance b) = Inl OverflowError
         then calculate_position_size b (entry s) (stop_loss s) = Inl OverflowError
              \<and> execute_trade b s = (b, [ErrorExecutingTrade OverflowError], False)
         else if is_py (entry s) \<and> is_py (stop_loss s)
         then calculate_position_size b (entry s) (stop_loss s) = Inl ZeroDivisionError
              \<and> execute_trade b s = (b, [ErrorExecutingTrade ZeroDivisionError], False)
         else if float_of_int (leverage (config b)) = Inl OverflowError
         then calculate_position_size b (entry s) (stop_loss s) = Inl OverflowError
              \<and> execute_trade b s = (b, [ErrorExecutingTrade OverflowError], False)
         else (\<exists>v. (\<forall>r. v \<noteq> Fin r)
              \<and> calculate_position_size b (entry s) (stop_loss s) = Inr (NpFloat v)
              \<and> execute_trade b s = (b, [TradeExecuted s (NpFloat v)], True))"
proof -
  obtain e where e: "entry s = e" by simp
  obtain sl where sl: "stop_loss s = sl" by simp
  have zero: "rnd (Fin 0) = Fin 0" by (simp add: rd_def)
  show ?thesis
    using assms zero zero_distance_size
      float_of_int_cases [of "balance b"] float_of_int_cases [of "leverage (config b)"]
    unfolding e sl execute_trade_def calculate_position_size_def Let_def e sl
    by (cases e; cases sl)
       (auto simp: fsub_def simp del: fdiv.simps fmul.simps py_round.simps rnd.simps)
qed

theorem zero_stop_distance_witness:
  "sval (entry \<lparr>stype = LONG, entry = PyFloat (Fin 100), stop_loss = PyFloat (Fin 100),
      take_profit = PyFloat (Fin 120), confidence = 72, strategy = ''Market Structure Break''\<rparr>)
     = Fin 100
   \<and> execute_trade (TradingBot_init default_config)
       \<lparr>stype = LONG, entry = PyFloat (Fin 100), stop_loss = PyFloat (Fin 100),
        take_profit = PyFloat (Fin 120), confidence = 72, strategy = ''Market Structure Break''\<rparr>
     = (TradingBot_init default_config, [ErrorExecutingTrade ZeroDivisionError], False)"
  using zero_stop_distance [of "\<lparr>stype = LONG, entry = PyFloat (Fin 100),
      stop_loss = PyFloat (Fin 100), take_profit = PyFloat (Fin 120), confidence = 72,
      strategy = ''Market Structure Break''\<rparr>" 100 "TradingBot_init default_config"]
  by (simp add: float_of_int_def TradingBot_init_def)

section \<open>Exponential moving average: theorems\<close>

lemma ewm_from_replicate: "ewm_from \<alpha> v (replicate n v) = replicate n v"
  by (induction n) (simp_all add: algebra_simps)

lemma ewm_mean_replicate: "ewm_mean \<alpha> (replicate n v) = replicate n v"
  by (cases n) (simp_all add: ewm_from_replicate)

text \<open>
  C9. The exponential moving average of a constant series, for every period pandas
  accepts (a span of at least 1), is the series itself: every entry is \<open>v\<close>.
\<close>

theorem ema_constant:
  assumes "1 \<le> period"
  shows "calculate_ema (replicate n v) period = Inr (replicate n v)"
  using assms by (simp add: calculate_ema_def ewm_mean_replicate)

theorem ema_constant_witness:
  "(1::int) \<le> 9 \<and> calculate_ema [5, 5, 5] 9 = Inr [5, 5, 5]"
  using ema_constant [of 9 3 5] by (simp add: numeral_3_eq_3)

section \<open>Starting the bot: theorems\<close>

lemma start_bot_running:
  "is_running b \<Longrightarrow> start_bot (Some b) cfg = Inl (HTTPException 400 ''Bot is already running'')"
  by (simp add: start_bot_def)

lemma start_bot_idle:
  "bot_instance = None \<or> (\<exists>b. bot_instance = Some b \<and> \<not> is_running b) \<Longrightarrow>
   \<exists>b'. start_bot bot_instance cfg = Inr (Some b', ''Bot started successfully'')
     \<and> is_running b' \<and> balance b' = 10000 \<and> config b' = cfg"
  by (auto simp: start_bot_def TradingBot_init_def)

text \<open>
  C7, as the code has it. In \<open>main-no-ccxt.py\<close> a start call on a running bot is answered
  with status \<open>running\<close> and the message \<open>Bot is already running\<close>; on an idle bot with an
  empty API key or secret with status \<open>error\<close> and the message \<open>API credentials not found.
  Please configure .env file.\<close>; when the balance client fails with status \<open>error\<close> and the
  message \<open>Failed to connect to Binance API: \<close> followed by the text of the exception; on
  an idle bot with credentials and a fetched balance of at most 0 with status \<open>blocked\<close>,
  the message \<open>Account balance is $\<close>, the balance with two decimals, \<open>. Cannot start bot
  with zero balance.\<close>, and the balance. In all these cases the bot is unchanged. Only
  an idle bot with credentials and a positive balance is started, with status \<open>started\<close>,
  the message \<open>Trading bot started successfully. Balance: $\<close> and the balance with two
  decimals, and the balance. The handler of \<open>binance_bot_backend.py\<close> rejects a start on a
  running bot with HTTP 400 and the detail \<open>Bot is already running\<close>, and otherwise starts
  a new bot and answers \<open>Bot started successfully\<close>, whatever the balance.
\<close>

theorem start_bot_cases:
  "(case start_bot_nc fmt env fetched tb of (tb', r) \<Rightarrow>
      if nc_is_running tb
      then tb' = tb
           \<and> r = \<lparr>rs_status = ''running'', rs_message = ''Bot is already running'',
                  rs_balance = None\<rparr>
      else if env_get env ''BINANCE_API_KEY'' [] = [] \<or> env_get env ''BINANCE_SECRET_KEY'' [] = []
      then tb' = tb
           \<and> r = \<lparr>rs_status = ''error'',
                  rs_message = ''API credentials not found. Please configure .env file.'',
                  rs_balance = None\<rparr>
      else case fetched of
             Inl exn \<Rightarrow>
               tb' = tb
               \<and> r = \<lparr>rs_status = ''error'',
                      rs_message = ''Failed to connect to Binance API: '' @ exn,
                      rs_balance = None\<rparr>
           | Inr account_balance \<Rightarrow>
               if account_balance \<le> 0
               then tb' = tb
                    \<and> r = \<lparr>rs_status = ''blocked'',
                           rs_message = ''Account balance is $'' @ fmt account_balance
                              @ ''. Cannot start bot with zero balance.'',
                           rs_balance = Some account_balance\<rparr>
               else tb' = tb\<lparr>nc_is_running := True\<rparr>
                    \<and> r = \<lparr>rs_status = ''started'',
                           rs_message = ''Trading bot started successfully. Balance: $''
                              @ fmt account_balance,
                           rs_balance = Some account_balance\<rparr>)
   \<and> (case start_bot bot_instance cfg of
         Inl err \<Rightarrow> err = HTTPException 400 ''Bot is already running''
           \<and> (\<exists>b. bot_instance = Some b \<and> is_running b)
       | Inr (new_instance, msg) \<Rightarrow>
           new_instance = Some ((TradingBot_init cfg)\<lparr>is_running := True\<rparr>)
           \<and> msg = ''Bot started successfully''
           \<and> (bot_instance = None \<or> (\<exists>b. bot_instance = Some b \<and> \<not> is_running b)))"
  by (auto simp: start_bot_nc_def start_bot_def Let_def split: sum.splits option.splits)

text \<open>
  The claim C7 fails where it says that every call that is neither on a running bot nor
  on a balance of at most 0 starts the bot: without credentials an idle bot with a
  balance of 250 stays idle.
\<close>

theorem start_bot_counterexample:
  "\<not> nc_is_running idle_bot_nc \<and> \<not> (250::real) \<le> 0
   \<and> fst (start_bot_nc (\<lambda>x. ''250.00'') env_missing (Inr 250) idle_bot_nc) = idle_bot_nc
   \<and> snd (start_bot_nc (\<lambda>x. ''250.00'') env_missing (Inr 250) idle_bot_nc)
       = \<lparr>rs_status = ''error'',
          rs_message = ''API credentials not found. Please configure .env file.'',
          rs_balance = None\<rparr>"
  by (simp add: start_bot_nc_def idle_bot_nc_def env_missing_def env_get_def)

section \<open>Columns: basic facts\<close>

lemma length_series [simp]: "length (series n f) = n"
  by (simp add: series_def)

lemma nth_series [simp]: "i < n \<Longrightarrow> series n f ! i = f i"
  by (simp add: series_def)

lemma length_diff [simp]: "length (diff xs) = length xs"
  by (simp add: diff_def)

lemma length_shift [simp]: "length (shift k xs) = length xs"
  by (simp add: shift_def)

lemma length_cumsum [simp]: "length (cumsum xs) = length xs"
  by (simp add: cumsum_def)

lemma length_rolling_mean [simp]: "length (rolling_mean w xs) = length xs"
  by (simp add: rolling_mean_def)

lemma length_rolling_center [simp]: "length (rolling_center agg w xs) = length xs"
  by (simp add: rolling_center_def)

lemma length_gains [simp]: "length (gains xs) = length xs"
  by (simp add: gains_def)

lemma length_losses [simp]: "length (losses xs) = length xs"
  by (simp add: losses_def)

lemma length_calculate_rsi [simp]: "length (calculate_rsi xs p) = length xs"
  by (simp add: calculate_rsi_def Let_def)

lemma length_true_range [simp]: "length (true_range df) = length df"
  by (simp add: true_range_def)

lemma length_calculate_atr [simp]: "length (calculate_atr df p) = length df"
  by (simp add: calculate_atr_def)

lemma nth_map2:
  "i < length xs \<Longrightarrow> i < length ys \<Longrightarrow> map2 f xs ys ! i = f (xs ! i) (ys ! i)"
  by simp

lemma rolling_mean_short: "i < length xs \<Longrightarrow> Suc i < w \<Longrightarrow> rolling_mean w xs ! i = NaN"
  by (simp add: rolling_mean_def)

lemma rolling_mean_full:
  "i < length xs \<Longrightarrow> w \<le> Suc i \<Longrightarrow> rolling_mean w xs ! i = fmean (window w xs i)"
  by (simp add: rolling_mean_def)

lemma calculate_rsi_nth:
  "i < length xs \<Longrightarrow>
   calculate_rsi xs p ! i =
     fsub (Fin 100) (fdiv (Fin 100) (fadd (Fin 1)
       (fdiv (rolling_mean p (gains xs) ! i) (rolling_mean p (losses xs) ! i))))"
  by (simp add: calculate_rsi_def Let_def)

lemma calculate_rsi_short:
  "i < length xs \<Longrightarrow> Suc i < p \<Longrightarrow> calculate_rsi xs p ! i = NaN"
  by (simp add: calculate_rsi_nth rolling_mean_short fsub_def)

lemma fgt_NaN [simp]: "fgt NaN y = False" "fgt x NaN = False"
  by (cases y; simp add: fgt_def) (cases x; simp add: fgt_def)

lemma flt_NaN_right [simp]: "flt x NaN = False"
  by (cases x) simp_all

lemma fmul_NaN_right [simp]: "fmul x NaN = NaN"
  by (cases x) simp_all

lemma tail_Nil_iff [simp]: "tail k xs = [] \<longleftrightarrow> xs = [] \<or> k = 0"
  by (cases xs) (auto simp: tail_def)

lemma length_tail [simp]: "length (tail k xs) = min k (length xs)"
  by (simp add: tail_def)

lemma minimum_le_hd: "xs \<noteq> [] \<Longrightarrow> minimum xs \<le> hd xs"
proof -
  have "fold min ys a \<le> a" for ys and a :: real
  proof (induction ys arbitrary: a)
    case Nil
    show ?case by simp
  next
    case (Cons y ys)
    have "fold min ys (min y a) \<le> min y a" by (rule Cons.IH)
    then show ?case by simp
  qed
  then show ?thesis by (simp add: minimum_def)
qed

lemma maximum_ge_hd: "xs \<noteq> [] \<Longrightarrow> hd xs \<le> maximum xs"
proof -
  have "a \<le> fold max ys a" for ys and a :: real
  proof (induction ys arbitrary: a)
    case Nil
    show ?case by simp
  next
    case (Cons y ys)
    have "max y a \<le> fold max ys (max y a)" by (rule Cons.IH)
    then show ?case by simp
  qed
  then show ?thesis by (simp add: maximum_def)
qed

lemma minimum_single [simp]: "minimum [x] = x"
  by (simp add: minimum_def)

lemma maximum_single [simp]: "maximum [x] = x"
  by (simp add: maximum_def)

section \<open>Detectors that cannot fire\<close>

text \<open>
  In the last row the gap flags compare with \<open>shift(-1)\<close>, the row after the last one:
  that entry is not-a-number and both flags are false.
\<close>

lemma fvg_last_False:
  assumes "df \<noteq> []"
  shows "\<not> map2 fgt (shift (- 1) (map low df)) (shift 1 (map high df)) ! (length df - 1)"
    and "\<not> map2 flt (shift (- 1) (map high df)) (shift 1 (map low df)) ! (length df - 1)"
  using assms by (simp_all add: shift_def Let_def)

lemma liquidity_sweep_fvg_strategy_result:
  "liquidity_sweep_fvg_strategy df = (if df = [] then Inl IndexError else Inr None)"
proof (cases "df = []")
  case True
  then show ?thesis by (simp add: liquidity_sweep_fvg_strategy_def Let_def)
next
  case False
  then have ne: "tail 3 df \<noteq> []" by simp
  have two: "2 \<le> length (tail 3 df)"
    if "minimum (map low (tail 3 df)) < hd (map low (tail 3 df))
        \<or> hd (map high (tail 3 df)) < maximum (map high (tail 3 df))"
  proof (rule ccontr)
    assume "\<not> 2 \<le> length (tail 3 df)"
    with ne obtain c where "tail 3 df = [c]"
      by (cases "tail 3 df") (auto simp: not_le less_Suc_eq_le Suc_le_eq numeral_2_eq_2)
    with that show False by simp
  qed
  have il: "iloc xs 1 = Inr (xs ! 1)" if "2 \<le> length xs" for xs :: "real list"
    using that by (simp add: iloc_def)
  show ?thesis
    using False fvg_last_False [OF False] two
    by (simp add: liquidity_sweep_fvg_strategy_def Let_def il)
qed

text \<open>
  \<open>nsmallest\<close> returns its rows in ascending order of the column and \<open>nlargest\<close> in
  descending order, so the second row is never strictly beyond the first.
\<close>

lemma nsmallest_ordered:
  assumes "length (nsmallest 2 col rows) = 2"
  shows "col (nsmallest 2 col rows ! 0) \<le> col (nsmallest 2 col rows ! 1)"
proof -
  have "sorted (map col (take 2 (sort_key col rows)))"
    using sorted_wrt_take [OF sorted_sort_key [of col rows], of 2] by (simp add: take_map)
  then show ?thesis
    using assms unfolding nsmallest_def
    by (simp add: sorted_iff_nth_mono)
qed

lemma nlargest_ordered:
  assumes "length (nlargest 2 col rows) = 2"
  shows "col (nlargest 2 col rows ! 1) \<le> col (nlargest 2 col rows ! 0)"
  using nsmallest_ordered [of "\<lambda>r. - col r" rows] assms
  by (simp add: nsmallest_def nlargest_def)

lemma delta_divergence_strategy_result:
  "delta_divergence_strategy df = (if df = [] then Inl TypeError else Inr None)"
proof -
  have "\<not> low (df ! (nsmallest 2 (\<lambda>r. low (df ! r)) rows ! 1))
          < low (df ! (nsmallest 2 (\<lambda>r. low (df ! r)) rows ! 0))"
    if "length (nsmallest 2 (\<lambda>r. low (df ! r)) rows) = 2" for rows
    using nsmallest_ordered [OF that] by simp
  moreover have "\<not> high (df ! (nlargest 2 (\<lambda>r. high (df ! r)) rows ! 1))
          > high (df ! (nlargest 2 (\<lambda>r. high (df ! r)) rows ! 0))"
    if "length (nlargest 2 (\<lambda>r. high (df ! r)) rows) = 2" for rows
    using nlargest_ordered [OF that] by simp
  ultimately show ?thesis
    unfolding delta_divergence_strategy_def Let_def object_columns_def by auto
qed

section \<open>Short histories\<close>

lemma calculate_ema_Inr:
  "1 \<le> p \<Longrightarrow> calculate_ema xs p = Inr (ewm_mean (2 / (of_int p + 1)) xs)"
  by (simp add: calculate_ema_def)

lemma ema_crossover_rsi_strategy_raises:
  "length df < 2 \<Longrightarrow> ema_crossover_rsi_strategy df = Inl IndexError"
  by (auto simp: ema_crossover_rsi_strategy_def calculate_ema_Inr Let_def)

lemma ema_crossover_rsi_strategy_short:
  assumes "2 \<le> length df" and "length df < 20"
  shows "ema_crossover_rsi_strategy df = Inr None"
proof -
  have "rolling_mean 20 (map (\<lambda>c. Fin (volume c)) df) ! (length df - 1) = NaN"
    using assms by (simp add: rolling_mean_short)
  moreover have "df \<noteq> []" using assms by auto
  ultimately show ?thesis
    using assms by (simp add: ema_crossover_rsi_strategy_def calculate_ema_Inr Let_def)
qed

lemma volume_profile_order_flow_strategy_raises:
  "volume_profile_order_flow_strategy [] = Inl IndexError"
  by (simp add: volume_profile_order_flow_strategy_def calculate_ema_Inr Let_def)

lemma volume_profile_order_flow_strategy_short:
  assumes "1 \<le> length df" and "length df < 20"
  shows "volume_profile_order_flow_strategy df = Inr None"
proof -
  have "rolling_mean 20 (map (\<lambda>c. Fin (volume c)) df) ! (length df - 1) = NaN"
    using assms by (simp add: rolling_mean_short)
  moreover have "df \<noteq> []" using assms by auto
  ultimately show ?thesis
    using assms by (simp add: volume_profile_order_flow_strategy_def calculate_ema_Inr Let_def)
qed

lemma market_structure_break_strategy_raises:
  "market_structure_break_strategy [] = Inl IndexError"
  by (simp add: market_structure_break_strategy_def Let_def)

lemma market_structure_break_strategy_short:
  assumes "1 \<le> length df" and "length df < 14"
  shows "market_structure_break_strategy df = Inr None"
proof -
  have "calculate_rsi (map close df) 14 ! (length df - 1) = NaN"
    using assms by (simp add: calculate_rsi_short)
  moreover have "df \<noteq> []" using assms by auto
  ultimately show ?thesis
    using assms by (simp add: market_structure_break_strategy_def Let_def)
qed

lemma run_iteration_gate: "length df \<le> 50 \<Longrightarrow> run_iteration b (Some df) = (b, [])"
  by (simp add: run_iteration_def)

section \<open>Relative strength index\<close>

lemma fmean_Fin:
  "xs \<noteq> [] \<Longrightarrow> fmean (map (\<lambda>j. Fin (f j)) xs) = Fin (sum_list (map f xs) / real (length xs))"
  by (simp add: fmean_def list_all_iff comp_def)

lemma gains_eq: "gains data = map (\<lambda>j. Fin (gain_at data j)) [0..<length data]"
  by (rule nth_equalityI) (auto simp: gains_def diff_def gain_at_def fgt_def max_def)

lemma losses_eq: "losses data = map (\<lambda>j. Fin (loss_at data j)) [0..<length data]"
  by (rule nth_equalityI) (auto simp: losses_def diff_def loss_at_def max_def)

lemma window_map_upt:
  assumes "w \<le> Suc i" and "i < n"
  shows "window w (map g [0..<n]) i = map g [Suc i - w..<Suc i]"
proof -
  have "take w [Suc i - w..<n] = [Suc i - w..<Suc i]"
    using assms by (simp add: take_upt)
  then show ?thesis
    by (simp add: window_def drop_map take_map)
qed

lemma rolling_mean_gains:
  assumes "i < length data" and "period \<le> Suc i" and "0 < period"
  shows "rolling_mean period (gains data) ! i = Fin (avg_gain data period i)"
    and "rolling_mean period (losses data) ! i = Fin (avg_loss data period i)"
proof -
  have ne: "[Suc i - period..<Suc i] \<noteq> []"
    using assms by simp
  have len: "length [Suc i - period..<Suc i] = period"
    using assms by simp
  have "rolling_mean period (gains data) ! i
          = fmean (map (\<lambda>j. Fin (gain_at data j)) [Suc i - period..<Suc i])"
    using assms by (simp add: rolling_mean_full gains_eq window_map_upt del: upt_Suc)
  then show "rolling_mean period (gains data) ! i = Fin (avg_gain data period i)"
    unfolding fmean_Fin [OF ne] len avg_gain_def .
  have "rolling_mean period (losses data) ! i
          = fmean (map (\<lambda>j. Fin (loss_at data j)) [Suc i - period..<Suc i])"
    using assms by (simp add: rolling_mean_full losses_eq window_map_upt del: upt_Suc)
  then show "rolling_mean period (losses data) ! i = Fin (avg_loss data period i)"
    unfolding fmean_Fin [OF ne] len avg_loss_def .
qed

lemma avg_gain_nonneg: "0 \<le> avg_gain data period i"
  unfolding avg_gain_def
  by (intro divide_nonneg_nonneg sum_list_nonneg) (auto simp: gain_at_def)

lemma avg_loss_nonneg: "0 \<le> avg_loss data period i"
  unfolding avg_loss_def
  by (intro divide_nonneg_nonneg sum_list_nonneg) (auto simp: loss_at_def)

lemma rising_averages: "avg_loss [1, 2, 3] 2 2 = 0" "avg_gain [1, 2, 3] 2 2 = 1"
proof -
  have u: "[Suc 2 - 2..<Suc 2] = [Suc 0, 2]"
    by (simp add: upt_rec)
  show "avg_loss [1, 2, 3] 2 2 = 0"
    unfolding avg_loss_def u by (simp add: loss_at_def)
  show "avg_gain [1, 2, 3] 2 2 = 1"
    unfolding avg_gain_def u by (simp add: gain_at_def)
qed

lemma calculate_rsi_value:
  assumes "i < length data"
  shows "calculate_rsi data period ! i =
     (if Suc i < period \<or> period = 0 then NaN
      else if avg_loss data period i \<noteq> 0
      then Fin (100 - 100 / (1 + avg_gain data period i / avg_loss data period i))
      else if 0 < avg_gain data period i then Fin 100
      else NaN)"
proof (cases "Suc i < period \<or> period = 0")
  case True
  then show ?thesis
  proof
    assume "Suc i < period"
    with assms show ?thesis by (simp add: calculate_rsi_short)
  next
    assume "period = 0"
    with assms show ?thesis
      by (simp add: calculate_rsi_nth rolling_mean_full window_def fmean_def fsub_def)
  qed
next
  case False
  then have full: "period \<le> Suc i" "0 < period" by auto
  note rm = rolling_mean_gains [OF assms full]
  have g: "0 \<le> avg_gain data period i" by (rule avg_gain_nonneg)
  have l: "0 \<le> avg_loss data period i" by (rule avg_loss_nonneg)
  show ?thesis
  proof (cases "avg_loss data period i = 0")
    case True
    with False g assms show ?thesis
      by (auto simp: calculate_rsi_nth rm fsub_def)
  next
    case nz: False
    with l have "0 < avg_loss data period i" by simp
    with g have "0 \<le> avg_gain data period i / avg_loss data period i" by simp
    then have "1 + avg_gain data period i / avg_loss data period i \<noteq> 0" by linarith
    with False nz assms show ?thesis
      by (simp add: calculate_rsi_nth rm fsub_def)
  qed
qed

text \<open>
  C8, as the code has it. At an index with a full window the RSI is
  \<open>100 - 100 / (1 + avg_gain / avg_loss)\<close> when the average loss is not 0. When it is 0
  the quotient is pandas' division by zero: with a positive average gain it is infinite
  and the RSI is 100; with an average gain of 0 it is not-a-number and so is the RSI.
  The RSI is not-a-number too while the window is not full (and for the period 0).
\<close>

theorem rsi_formula:
  assumes "i < length data"
  shows "calculate_rsi data period ! i =
     (if Suc i < period \<or> period = 0 then NaN
      else if avg_loss data period i \<noteq> 0
      then Fin (100 - 100 / (1 + avg_gain data period i / avg_loss data period i))
      else if 0 < avg_gain data period i then Fin 100
      else NaN)"
  using assms by (rule calculate_rsi_value)

theorem rsi_formula_witness:
  "(2::nat) < length [1, 2, 3::real]
   \<and> avg_loss [1, 2, 3] 2 2 = 0 \<and> avg_gain [1, 2, 3] 2 2 = 1
   \<and> calculate_rsi [1, 2, 3] 2 ! 2 = Fin 100"
  using rsi_formula [of 2 "[1, 2, 3]" 2] rising_averages by simp

text \<open>
  The claim C8 fails on a rising series: at the last index of \<open>[1, 2, 3]\<close> with the
  period 2 the average loss is 0 and the RSI is 100, not undefined.
\<close>

theorem rsi_counterexample:
  "avg_loss [1, 2, 3] 2 2 = 0 \<and> calculate_rsi [1, 2, 3] 2 ! 2 \<noteq> NaN
   \<and> calculate_rsi [1, 2, 3] 2 ! 2 = Fin 100"
proof -
  have u: "[0..<3] = [0, 1, 2]"
    by (simp add: upt_rec)
  have "calculate_rsi [1, 2, 3] 2 ! 2 = Fin 100"
    by (simp add: calculate_rsi_nth rolling_mean_full window_def gains_def losses_def diff_def
        series_def u fmean_def fgt_def fsub_def)
  with rising_averages show ?thesis by simp
qed

section \<open>The average true range of well-formed candles\<close>

lemma atr_value:
  assumes "i < length df" and "14 \<le> Suc i"
  shows "calculate_atr df 14 ! i
           = Fin (sum_list (map (\<lambda>j. true_range df ! j) [Suc i - 14..<Suc i]) / 14)"
proof -
  have tr: "map Fin (true_range df) = map (\<lambda>j. Fin (true_range df ! j)) [0..<length df]"
    by (rule nth_equalityI) simp_all
  have ne: "[Suc i - 14..<Suc i] \<noteq> []"
    using assms by simp
  have len: "length [Suc i - 14..<Suc i] = 14"
    using assms by simp
  have "calculate_atr df 14 ! i = fmean (map (\<lambda>j. Fin (true_range df ! j)) [Suc i - 14..<Suc i])"
    using assms unfolding calculate_atr_def tr
    by (simp add: rolling_mean_full window_map_upt del: upt_Suc)
  then show ?thesis
    unfolding fmean_Fin [OF ne] len by simp
qed

lemma true_range_ge_move:
  assumes "list_all well_formed df" and "j < length df"
  shows "gain_at (map close df) j + loss_at (map close df) j \<le> true_range df ! j"
proof -
  have wf: "well_formed (df ! j)"
    using assms by (simp add: list_all_length)
  show ?thesis
  proof (cases "j = 0")
    case True
    with wf assms show ?thesis
      by (simp add: true_range_def gain_at_def loss_at_def well_formed_def)
  next
    case False
    with assms have "j - 1 < length df" by simp
    with wf assms False show ?thesis
      by (auto simp: true_range_def gain_at_def loss_at_def well_formed_def Let_def max_def abs_if)
  qed
qed

lemma true_range_ge_body:
  assumes "list_all well_formed df" and "j < length df"
  shows "\<bar>close (df ! j) - c_open (df ! j)\<bar> \<le> true_range df ! j"
proof -
  have "well_formed (df ! j)"
    using assms by (simp add: list_all_length)
  then have "\<bar>close (df ! j) - c_open (df ! j)\<bar> \<le> high (df ! j) - low (df ! j)"
    by (auto simp: well_formed_def abs_if)
  moreover have "high (df ! j) - low (df ! j) \<le> true_range df ! j"
    using assms by (simp add: true_range_def Let_def)
  ultimately show ?thesis by simp
qed

lemma true_range_nonneg:
  assumes "list_all well_formed df" and "j < length df"
  shows "0 \<le> true_range df ! j"
  using true_range_ge_body [OF assms] by linarith

lemma atr_ge_moves:
  assumes "list_all well_formed df" and "i < length df" and "14 \<le> Suc i"
  shows "\<exists>a. calculate_atr df 14 ! i = Fin a
           \<and> avg_gain (map close df) 14 i + avg_loss (map close df) 14 i \<le> a"
proof -
  let ?w = "[Suc i - 14..<Suc i]"
  have "sum_list (map (\<lambda>j. gain_at (map close df) j + loss_at (map close df) j) ?w)
          \<le> sum_list (map (\<lambda>j. true_range df ! j) ?w)"
    using assms by (intro sum_list_mono true_range_ge_move) auto
  then have "sum_list (map (gain_at (map close df)) ?w) + sum_list (map (loss_at (map close df)) ?w)
          \<le> sum_list (map (\<lambda>j. true_range df ! j) ?w)"
    by (simp add: sum_list_addf del: upt_Suc)
  then have "avg_gain (map close df) 14 i + avg_loss (map close df) 14 i
          \<le> sum_list (map (\<lambda>j. true_range df ! j) ?w) / 14"
    unfolding avg_gain_def avg_loss_def by (simp add: field_simps del: upt_Suc)
  with atr_value [OF assms(2,3)] show ?thesis by blast
qed

lemma atr_ge_last_body:
  assumes "list_all well_formed df" and "i < length df" and "14 \<le> Suc i"
  shows "\<exists>a. calculate_atr df 14 ! i = Fin a \<and> \<bar>close (df ! i) - c_open (df ! i)\<bar> / 14 \<le> a"
proof -
  have "0 \<le> sum_list (map (\<lambda>j. true_range df ! j) [Suc i - 14..<i])"
    using assms by (intro sum_list_nonneg) (auto intro: true_range_nonneg)
  moreover have "Suc i - 14 \<le> i" by simp
  ultimately have "true_range df ! i \<le> sum_list (map (\<lambda>j. true_range df ! j) [Suc i - 14..<Suc i])"
    by simp
  with true_range_ge_body [OF assms(1,2)]
  have "\<bar>close (df ! i) - c_open (df ! i)\<bar> / 14
          \<le> sum_list (map (\<lambda>j. true_range df ! j) [Suc i - 14..<Suc i]) / 14"
    by (simp del: upt_Suc)
  with atr_value [OF assms(2,3)] show ?thesis by blast
qed

text \<open>Where the RSI is defined the closes moved inside its window, and the ATR is positive.\<close>

lemma rsi_defined_atr_positive:
  assumes "list_all well_formed df" and "i < length df"
    and "calculate_rsi (map close df) 14 ! i \<noteq> NaN"
  shows "\<exists>a. calculate_atr df 14 ! i = Fin a \<and> 0 < a"
proof -
  have full: "14 \<le> Suc i"
    using assms(2,3) calculate_rsi_short [of i "map close df" 14] by (cases "Suc i < 14") auto
  have "avg_loss (map close df) 14 i \<noteq> 0 \<or> 0 < avg_gain (map close df) 14 i"
    using assms(2,3) calculate_rsi_value [of i "map close df" 14] by (auto split: if_splits)
  then have "0 < avg_gain (map close df) 14 i + avg_loss (map close df) 14 i"
    using avg_gain_nonneg [of "map close df" 14 i] avg_loss_nonneg [of "map close df" 14 i]
    by linarith
  with atr_ge_moves [OF assms(1,2) full] show ?thesis
    by (metis less_le_trans)
qed

section \<open>The ordering of stop, entry and target\<close>

lemma ordered_long:
  assumes "0 < a" and "0 < p" and "0 < q"
  shows "ordered (mk_signal LONG (Fin cl) (fsub (Fin cl) (fmul (Fin p) (Fin a)))
           (fadd (Fin cl) (fmul (Fin q) (Fin a))) c name)"
  using assms by (simp add: ordered_def mk_signal_def fsub_def)

lemma ordered_short:
  assumes "0 < a" and "0 < p" and "0 < q"
  shows "ordered (mk_signal SHORT (Fin cl) (fadd (Fin cl) (fmul (Fin p) (Fin a)))
           (fsub (Fin cl) (fmul (Fin q) (Fin a))) c name)"
  using assms by (simp add: ordered_def mk_signal_def fsub_def)

lemma ema_crossover_rsi_strategy_ordered:
  assumes wf: "list_all well_formed df"
    and fires: "ema_crossover_rsi_strategy df = Inr (Some s)"
  shows "ordered s"
proof -
  let ?i = "length df - 1"
  have n: "2 \<le> length df"
    using fires ema_crossover_rsi_strategy_raises [of df] by (cases "length df < 2") auto
  then have i: "?i < length df" and ne: "df \<noteq> []" by auto
  have "calculate_rsi (map close df) 14 ! ?i \<noteq> NaN"
  proof
    assume "calculate_rsi (map close df) 14 ! ?i = NaN"
    with fires n ne show False
      by (auto simp: ema_crossover_rsi_strategy_def calculate_ema_Inr Let_def split: if_splits)
  qed
  with rsi_defined_atr_positive [OF wf i]
  obtain a where a: "calculate_atr df 14 ! ?i = Fin a" "0 < a" by blast
  have "0 < (2::real)" "0 < (4::real)" by simp_all
  note ol = ordered_long [OF a(2) this] and os = ordered_short [OF a(2) this]
  show ?thesis
    using fires n ne a(1) ol os
    by (auto simp: ema_crossover_rsi_strategy_def calculate_ema_Inr Let_def split: if_splits)
qed

lemma volume_profile_order_flow_strategy_ordered:
  assumes wf: "list_all well_formed df"
    and fires: "volume_profile_order_flow_strategy df = Inr (Some s)"
  shows "ordered s"
proof -
  let ?i = "length df - 1"
  let ?vol = "fgt (Fin (volume (df ! ?i)))
               (fmul (rolling_mean 20 (map (\<lambda>c. Fin (volume c)) df) ! ?i) (Fin (15 / 10)))"
  let ?d = "calculate_delta df ! ?i"
  have n: "df \<noteq> []"
    using fires volume_profile_order_flow_strategy_raises by auto
  then have i: "?i < length df" by simp
  have conds: "?vol \<and> ?d \<noteq> 0"
    using fires n
    by (auto simp: volume_profile_order_flow_strategy_def calculate_ema_Inr Let_def
        split: if_splits)
  have full: "14 \<le> Suc ?i"
  proof (rule ccontr)
    assume "\<not> 14 \<le> Suc ?i"
    then have "rolling_mean 20 (map (\<lambda>c. Fin (volume c)) df) ! ?i = NaN"
      using i by (simp add: rolling_mean_short)
    with conds show False by simp
  qed
  have d: "?d = close (df ! ?i) - c_open (df ! ?i)"
    using i by (simp add: calculate_delta_def)
  from atr_ge_last_body [OF wf i full] conds d
  obtain a where a: "calculate_atr df 14 ! ?i = Fin a" "0 < a"
    by (auto simp: abs_if split: if_splits)
  have long: "ordered (mk_signal LONG (Fin cl) (fsub v (Fin a)) (fadd (Fin cl) (fmul (Fin 3) (Fin a))) c name)"
    if "fgt (Fin cl) v" for cl v c name
    using that a(2) by (cases v) (simp_all add: ordered_def mk_signal_def fsub_def fgt_def)
  have short: "ordered (mk_signal SHORT (Fin cl) (fadd v (Fin a)) (fsub (Fin cl) (fmul (Fin 3) (Fin a))) c name)"
    if "flt (Fin cl) v" for cl v c name
    using that a(2) by (cases v) (simp_all add: ordered_def mk_signal_def fsub_def)
  show ?thesis
    using fires n a(1) long short
    by (auto simp: volume_profile_order_flow_strategy_def calculate_ema_Inr Let_def
        split: if_splits)
qed

lemma market_structure_break_strategy_target:
  assumes wf: "list_all well_formed df"
    and fires: "market_structure_break_strategy df = Inr (Some s)"
  shows "target_ordered s"
    and "(stype s = LONG \<and> swing_rows minimum low df = [])
         \<or> (stype s = SHORT \<and> swing_rows maximum high df = []) \<Longrightarrow> ordered s"
proof -
  let ?i = "length df - 1"
  have ne: "df \<noteq> []"
    using fires market_structure_break_strategy_raises by auto
  then have i: "?i < length df" by simp
  have "calculate_rsi (map close df) 14 ! ?i \<noteq> NaN"
  proof
    assume "calculate_rsi (map close df) 14 ! ?i = NaN"
    with fires ne show False
      by (auto simp: market_structure_break_strategy_def Let_def split: if_splits)
  qed
  with rsi_defined_atr_positive [OF wf i]
  obtain a where a: "calculate_atr df 14 ! ?i = Fin a" "0 < a" by blast
  have "0 < (2::real)" "0 < (3::real)" by simp_all
  note ol = ordered_long [OF a(2) this] and os = ordered_short [OF a(2) this]
  show "target_ordered s"
    using fires ne a
    by (auto simp: market_structure_break_strategy_def Let_def target_ordered_def mk_signal_def
        fsub_def split: if_splits)
  show "ordered s"
    if "(stype s = LONG \<and> swing_rows minimum low df = [])
        \<or> (stype s = SHORT \<and> swing_rows maximum high df = [])"
    using fires ne a(1) ol os that
    by (auto simp: market_structure_break_strategy_def Let_def mk_signal_def
        split: if_splits)
qed


section \<open>The balance of the bot\<close>

lemma execute_trade_frame:
  "balance (fst (execute_trade b s)) = balance b \<and> config (fst (execute_trade b s)) = config b"
  by (simp add: execute_trade_def split: sum.splits)

lemma analyze_market_frame: "fst (analyze_market b df) = b"
  by (simp add: analyze_market_def)

lemma stop_frame: "balance (fst (stop b)) = balance b \<and> config (fst (stop b)) = config b"
  by (simp add: stop_def)

lemma run_iteration_frame:
  "balance (fst (run_iteration b fetched)) = balance b
   \<and> config (fst (run_iteration b fetched)) = config b"
proof (cases fetched)
  case None
  then show ?thesis by (simp add: run_iteration_def)
next
  case (Some df)
  obtain r where r: "analyze_market b df = (b, r)"
    by (simp add: analyze_market_def)
  show ?thesis
  proof (cases r)
    case (Inl err)
    with Some r show ?thesis by (simp add: run_iteration_def)
  next
    case (Inr signals)
    with Some r execute_trade_frame [of b "hd signals"] show ?thesis
      by (cases "execute_trade b (hd signals)") (simp add: run_iteration_def)
  qed
qed

lemma run_loop_frame:
  "balance (fst (run_loop b rounds)) = balance b \<and> config (fst (run_loop b rounds)) = config b"
proof (induction rounds arbitrary: b)
  case Nil
  show ?case by simp
next
  case (Cons r rounds)
  obtain fetched stop_called where r: "r = (fetched, stop_called)" by (cases r)
  obtain b1 evs1 where it: "run_iteration b fetched = (b1, evs1)"
    by (cases "run_iteration b fetched")
  obtain b2 evs2 where st: "(if stop_called then stop b1 else (b1, [])) = (b2, evs2)"
    by (cases "if stop_called then stop b1 else (b1, [])")
  obtain b3 evs3 where lp: "run_loop b2 rounds = (b3, evs3)"
    by (cases "run_loop b2 rounds")
  have "balance b1 = balance b \<and> config b1 = config b"
    using run_iteration_frame [of b fetched] it by simp
  moreover have "balance b2 = balance b1 \<and> config b2 = config b1"
    using st stop_frame [of b1] by (cases stop_called) auto
  moreover have "balance b3 = balance b2 \<and> config b3 = config b2"
    using Cons.IH [of b2] lp by simp
  ultimately show ?case
    using r it st lp by simp
qed

lemma run_frame:
  "balance (fst (run b rounds)) = balance b \<and> config (fst (run b rounds)) = config b"
  using run_loop_frame [of "b\<lparr>is_running := True\<rparr>" rounds]
  by (cases "run_loop (b\<lparr>is_running := True\<rparr>) rounds") (simp add: run_def)

lemma apply_call_frame:
  "balance (apply_call b c) = balance b \<and> config (apply_call b c) = config b"
  by (cases c)
     (simp_all add: run_frame run_iteration_frame analyze_market_frame execute_trade_frame
        stop_frame)

lemma history_frame:
  "balance (foldl apply_call b cs) = balance b \<and> config (foldl apply_call b cs) = config b"
  by (induction cs arbitrary: b) (simp_all add: apply_call_frame)

lemma calculate_position_size_frame:
  assumes "balance b = balance b'" and "config b = config b'"
  shows "calculate_position_size b e sl = calculate_position_size b' e sl"
  unfolding calculate_position_size_def assms by (rule refl)

text \<open>
  C10. The constructor sets the balance to 10000 and no method changes it: after every
  history of calls of \<open>run\<close>, of a loop iteration, of \<open>analyze_market\<close>, of
  \<open>execute_trade\<close> and of \<open>stop\<close> the balance is 10000, and the size of every position
  is the one computed from 10000: it is the size the freshly built bot computes, and for
  a leverage, a risk percentage and a stop distance of moderate size it is the quotient
  \<open>(10000 * risk_percent / 100) / |entry - stop_loss| * leverage\<close> up to the rounding to
  three decimals and the rounding of the float operations. The bot has no input from
  which an account balance could come.
\<close>

theorem balance_constant:
  "balance (TradingBot_init cfg) = 10000
   \<and> balance (foldl apply_call (TradingBot_init cfg) cs) = 10000
   \<and> calculate_position_size (foldl apply_call (TradingBot_init cfg) cs) e sl
       = calculate_position_size (TradingBot_init cfg) e sl
   \<and> (sval e = Fin x \<and> sval sl = Fin y
        \<and> 1 \<le> leverage cfg \<and> leverage cfg \<le> 2 ^ 53
        \<and> 1 / 2 ^ 100 \<le> risk_percent cfg \<and> risk_percent cfg \<le> 2 ^ 100
        \<and> 1 / 2 ^ 100 \<le> \<bar>x - y\<bar> \<and> \<bar>x - y\<bar> \<le> 2 ^ 100 \<longrightarrow>
        (\<exists>r. calculate_position_size (foldl apply_call (TradingBot_init cfg) cs) e sl
                = Inr (if is_py e \<and> is_py sl then PyFloat (Fin r) else NpFloat (Fin r))
           \<and> \<bar>r - spec_size 10000 (risk_percent cfg) (of_int (leverage cfg)) x y\<bar>
               \<le> 1 / 2000
                 + (spec_size 10000 (risk_percent cfg) (of_int (leverage cfg)) x y + 1) / 2 ^ 48))"
proof -
  let ?b = "foldl apply_call (TradingBot_init cfg) cs"
  have frame: "balance ?b = 10000 \<and> config ?b = cfg"
    using history_frame [of "TradingBot_init cfg" cs] by (simp add: TradingBot_init_def)
  have init: "balance (TradingBot_init cfg) = 10000" "config (TradingBot_init cfg) = cfg"
    by (simp_all add: TradingBot_init_def)
  have same: "calculate_position_size ?b e sl = calculate_position_size (TradingBot_init cfg) e sl"
    by (rule calculate_position_size_frame) (simp_all add: frame init)
  have "\<exists>r. calculate_position_size ?b e sl
            = Inr (if is_py e \<and> is_py sl then PyFloat (Fin r) else NpFloat (Fin r))
          \<and> \<bar>r - spec_size 10000 (risk_percent cfg) (of_int (leverage cfg)) x y\<bar>
              \<le> 1 / 2000
                + (spec_size 10000 (risk_percent cfg) (of_int (leverage cfg)) x y + 1) / 2 ^ 48"
    if "sval e = Fin x" "sval sl = Fin y" "1 \<le> leverage cfg" "leverage cfg \<le> 2 ^ 53"
      "1 / 2 ^ 100 \<le> risk_percent cfg" "risk_percent cfg \<le> 2 ^ 100"
      "1 / 2 ^ 100 \<le> \<bar>x - y\<bar>" "\<bar>x - y\<bar> \<le> 2 ^ 100"
    using calculate_position_size_near [of e x sl y ?b] that frame by simp
  then show ?thesis using frame same init by blast
qed

theorem balance_constant_witness:
  "balance (foldl apply_call (TradingBot_init default_config)
        [CallRun [(None, False), (Some [], True)], CallStop]) = 10000
   \<and> (\<exists>r. calculate_position_size
        (foldl apply_call (TradingBot_init default_config)
           [CallRun [(None, False), (Some [], True)], CallStop])
        (NpFloat (Fin 3)) (NpFloat (Fin 1)) = Inr (NpFloat (Fin r))
      \<and> \<bar>r - 500\<bar> \<le> 1 / 2000 + 501 / 2 ^ 48)"
proof -
  note inst = balance_constant [of default_config
      "[CallRun [(None, False), (Some [], True)], CallStop]"
      "NpFloat (Fin 3)" "NpFloat (Fin 1)" 3 1]
  have facts: "spec_size 10000 1 10 3 1 = 500" "leverage default_config = 10"
    "risk_percent default_config = 1"
    by (simp_all add: spec_size_def default_config_def)
  have 1: "balance (foldl apply_call (TradingBot_init default_config)
        [CallRun [(None, False), (Some [], True)], CallStop]) = 10000"
    using inst by blast
  have 2: "\<exists>r. calculate_position_size
        (foldl apply_call (TradingBot_init default_config)
           [CallRun [(None, False), (Some [], True)], CallStop])
        (NpFloat (Fin 3)) (NpFloat (Fin 1)) = Inr (NpFloat (Fin r))
      \<and> \<bar>r - 500\<bar> \<le> 1 / 2000 + 501 / 2 ^ 48"
    using inst [THEN conjunct2, THEN conjunct2, THEN conjunct2] facts by simp
  from 1 2 show ?thesis by blast
qed

section \<open>Liquidity Sweep and Delta Divergence on frames that meet the specification\<close>

lemma upt20: "[0..<20] = [0,1,2,3,4,5,6,7,8,9,10,11,12,13,14,15,16,17,18,19]"
  by (simp add: upt_rec)

lemma sweep_candles_spec: "spec_liquidity_sweep_long sweep_candles"
  by (simp add: spec_liquidity_sweep_long_def sweep_candles_def tail_def mkc_def rolling_mean_def
       series_def upt20 window_def fmean_def fgt_def)

text \<open>
  C5 at a frame that meets every condition of the specification for a long signal: the
  detector returns no signal. It reads the gap flag of the last row, which compares with
  the row after the last, so the flag is false on every frame and the detector never
  fires.
\<close>

theorem liquidity_sweep_failing_input:
  "spec_liquidity_sweep_long sweep_candles
   \<and> liquidity_sweep_fvg_strategy sweep_candles = Inr None"
  using sweep_candles_spec liquidity_sweep_fvg_strategy_result [of sweep_candles]
  by (simp add: sweep_candles_def)

lemma length_divergence_candles: "length divergence_candles = 20"
  by (simp add: divergence_candles_def)

lemma nsmallest_divergence_candles:
  "nsmallest 2 (\<lambda>r. low (divergence_candles ! r)) (tail 20 [0..<length divergence_candles])
     = [19, 18]"
  by (simp add: length_divergence_candles tail_def nsmallest_def upt20 divergence_candles_def
      mkc_def)

lemma obv_divergence_candles:
  "calculate_obv divergence_candles = [0,0,0,0,0,0,0,0,0,0,0,0,0,0,0,0,0,-1,-2,98]"
  by (simp add: calculate_obv_def series_def upt20 cumsum_def divergence_candles_def mkc_def)

lemma rsi_divergence_candles:
  "last (calculate_rsi (map close divergence_candles) 14) = Fin (100 / 21)"
proof -
  have "calculate_rsi (map close divergence_candles) 14 ! 19 = Fin (100 / 21)"
    by (simp add: calculate_rsi_nth rolling_mean_full window_def gains_def losses_def
        diff_def series_def upt20 fmean_def fgt_def fsub_def divergence_candles_def mkc_def)
  moreover have "calculate_rsi (map close divergence_candles) 14 \<noteq> []"
    using length_divergence_candles by (simp flip: length_0_conv)
  ultimately show ?thesis
    by (simp add: last_conv_nth length_divergence_candles)
qed

lemma obv_ma_divergence_candles:
  "last (rolling_mean 20 (map Fin [0,0,0,0,0,0,0,0,0,0,0,0,0,0,0,0,0,-1,-2,98])) = Fin (95 / 20)"
  by (simp add: rolling_mean_def series_def upt20 window_def fmean_def)

lemma divergence_candles_spec: "spec_delta_divergence_long divergence_candles"
  unfolding spec_delta_divergence_long_def Let_def nsmallest_divergence_candles
    rsi_divergence_candles obv_divergence_candles obv_ma_divergence_candles
  by (simp add: calculate_delta_def fgt_def divergence_candles_def mkc_def)

text \<open>
  C6 at a frame that meets every condition of the specification for a long signal: the
  detector returns no signal. It compares the second row of \<open>nsmallest\<close> with the first,
  and these come ordered by their low, not by time: the second low is never below the
  first, and the detector never fires. The short side, with \<open>nlargest\<close>, is the same.
\<close>

theorem delta_divergence_failing_input:
  "spec_delta_divergence_long divergence_candles
   \<and> delta_divergence_strategy divergence_candles = Inr None"
proof -
  have "divergence_candles \<noteq> []" using length_divergence_candles by auto
  then show ?thesis
    using divergence_candles_spec by (simp add: delta_divergence_strategy_result)
qed

section \<open>Signals on concrete frames\<close>

lemma replicate_numeral_unfold:
  "replicate (numeral k) x = x # replicate (pred_numeral k) x"
  by (simp add: numeral_eq_Suc)

lemma upt60:
  "[0..<60] = [0,1,2,3,4,5,6,7,8,9,10,11,12,13,14,15,16,17,18,19,20,21,22,23,24,25,26,27,28,29,
     30,31,32,33,34,35,36,37,38,39,40,41,42,43,44,45,46,47,48,49,50,51,52,53,54,55,56,57,58,59]"
  by (simp add: upt_rec)

lemma msb_history_list:
  "msb_history =
    [mkc 10 10 9 10 10, mkc 10 10 9 10 10, mkc 10 10 9 10 10, mkc 10 10 9 10 10,
     mkc 10 10 9 10 10, mkc 10 10 9 10 10, mkc 10 10 9 10 10, mkc 10 10 9 10 10,
     mkc 10 10 9 10 10, mkc 10 10 9 10 10, mkc 10 10 9 10 10, mkc 10 10 9 10 10,
     mkc 10 10 9 10 10, mkc 10 10 9 10 10, mkc 10 10 9 10 10, mkc 10 10 9 10 10,
     mkc 10 10 9 10 10, mkc 10 10 9 10 10, mkc 10 10 9 10 10, mkc 10 10 9 10 10,
     mkc 10 10 9 10 10, mkc 10 10 9 10 10, mkc 10 10 9 10 10, mkc 10 10 9 10 10,
     mkc 10 10 9 10 10, mkc 10 10 9 10 10, mkc 10 10 9 10 10, mkc 10 10 9 10 10,
     mkc 10 10 9 10 10, mkc 10 10 9 10 10, mkc 10 10 9 10 10, mkc 10 10 9 10 10,
     mkc 10 10 9 10 10, mkc 10 10 9 10 10, mkc 10 10 9 10 10, mkc 10 10 9 10 10,
     mkc 10 10 9 10 10, mkc 10 10 9 10 10, mkc 10 10 9 10 10, mkc 10 10 9 10 10,
     mkc 10 10 9 10 10, mkc 10 10 9 10 10, mkc 10 10 9 10 10, mkc 10 10 9 10 10,
     mkc 10 10 9 10 10, mkc 10 10 9 10 10,
     mkc 10 10 9 10 10, mkc 10 11 9 10 10, mkc 10 12 9 10 10,
     mkc 10 11 9 10 10, mkc 10 10 9 10 10, mkc 10 10 9 10 10,
     mkc 100 101 99 100 10, mkc 100 102 98 100 10, mkc 100 103 97 100 10,
     mkc 100 104 96 100 10, mkc 100 103 97 100 10, mkc 100 102 98 100 10,
     mkc 100 101 99 100 10]"
  by (simp add: msb_history_def msb_rise_def replicate_numeral_unfold)

lemma msb_length: "length msb_candles = 60"
  by (simp add: msb_candles_def msb_history_def msb_rise_def)

lemma msb_closes:
  "map close msb_candles = replicate 46 10 @ [10,10,10,10,10,10,100,100,100,100,100,100,100,50]"
  by (simp add: msb_candles_def msb_history_def msb_rise_def mkc_def)

lemma msb_hist:
  "snd (snd (calculate_macd (map close msb_candles))) ! 59 > 0"
  by (simp add: msb_closes replicate_numeral_unfold calculate_macd_def Let_def)

lemma msb_rsi:
  "calculate_rsi (map close msb_candles) 14 ! 59 = Fin (450 / 7)"
  by (simp add: msb_closes replicate_numeral_unfold calculate_rsi_nth rolling_mean_full window_def gains_def losses_def diff_def
      series_def upt60 fmean_def fgt_def fsub_def)

lemma msb_atr: "calculate_atr msb_candles 14 ! 59 = Fin (181 / 14)"
  by (simp add: calculate_atr_def rolling_mean_full msb_length window_def true_range_def
      series_def upt60 fmean_def msb_candles_def msb_history_list mkc_def)

lemma msb_swing_highs:
  "tail 3 (swing_rows maximum high msb_candles) = [mkc 10 10 9 10 10, mkc 10 12 9 10 10, mkc 100 104 96 100 10]"
  by (simp add: swing_rows_def rolling_center_def series_def upt60 msb_candles_def msb_history_list mkc_def
      maximum_def tail_def)

lemma msb_swing_lows:
  "tail 3 (swing_rows minimum low msb_candles)
     = [mkc 10 10 9 10 10, mkc 10 10 9 10 10, mkc 100 104 96 100 10]"
  by (simp add: swing_rows_def rolling_center_def series_def upt60 msb_candles_def msb_history_list mkc_def
      minimum_def tail_def)

lemma well_formed_frames:
  "list_all well_formed msb_candles" "list_all well_formed sweep_candles"
  by (simp_all add: msb_candles_def msb_history_list sweep_candles_def mkc_def well_formed_def)

lemma msb_last: "msb_candles ! 59 = mkc 100 100 50 50 10"
  by (simp add: msb_candles_def msb_history_def msb_rise_def nth_append)

text \<open>
  On the sixty candles the Market Structure Break detector goes long at 50, the close,
  with its stop at 96, the low of the last swing low.
\<close>

lemma msb_fires:
  "market_structure_break_strategy msb_candles =
     Inr (Some (mk_signal LONG (Fin 50) (Fin 96) (Fin (1243 / 14)) 72 ''Market Structure Break''))"
  unfolding market_structure_break_strategy_def Let_def
  using msb_hist
  by (simp add: msb_length msb_rsi msb_atr msb_swing_highs msb_swing_lows msb_last
      fgt_def mkc_def)

lemma sweep_closes:
  "map close sweep_candles
     = [100,100,100,100,100,100,100,100,100,100,100,100,100,100,100,100,100,100,96,105]"
  by (simp add: sweep_candles_def mkc_def)

lemma sweep_length: "length sweep_candles = 20"
  by (simp add: sweep_candles_def)

lemma sweep_ema:
  "ewm_mean (1 / 5) [100,100,100,100,100,100,100,100,100,100,100,100,100,100,100,100,100,100,96,105] ! 18 = 496 / 5"
  "ewm_mean (1 / 11) [100,100,100,100,100,100,100,100,100,100,100,100,100,100,100,100,100,100,96,105] ! 18 = 1096 / 11"
  "ewm_mean (1 / 5) [100,100,100,100,100,100,100,100,100,100,100,100,100,100,100,100,100,100,96,105] ! 19 = 2509 / 25"
  "ewm_mean (1 / 11) [100,100,100,100,100,100,100,100,100,100,100,100,100,100,100,100,100,100,96,105] ! 19 = 12115 / 121"
  "ewm_mean (2 / 51) [100,100,100,100,100,100,100,100,100,100,100,100,100,100,100,100,100,100,96,105] ! 19 = 260218 / 2601"
  by simp_all

lemma sweep_rsi:
  "calculate_rsi [100,100,100,100,100,100,100,100,100,100,100,100,100,100,100,100,100,100,96,105] 14 ! 19
     = Fin (900 / 13)"
  by (simp add: calculate_rsi_nth rolling_mean_full window_def gains_def losses_def diff_def
      series_def upt20 fmean_def fgt_def fsub_def)

lemma sweep_atr: "calculate_atr sweep_candles 14 ! 19 = Fin (39 / 14)"
  by (simp add: calculate_atr_def rolling_mean_full sweep_length window_def true_range_def
      series_def upt20 fmean_def sweep_candles_def mkc_def)

lemma sweep_volume_avg:
  "rolling_mean 20 (map (\<lambda>c. Fin (volume c)) sweep_candles) ! 19 = Fin (29 / 2)"
  by (simp add: rolling_mean_full sweep_length window_def fmean_def sweep_candles_def mkc_def)

lemma sweep_last: "sweep_candles ! 19 = mkc 102 106 102 105 100"
  by (simp add: sweep_candles_def)

lemma ema_fires:
  "ema_crossover_rsi_strategy sweep_candles =
     Inr (Some (mk_signal LONG (Fin 105) (Fin (696 / 7)) (Fin (813 / 7)) 75
        ''EMA Crossover with RSI''))"
  unfolding ema_crossover_rsi_strategy_def Let_def
  by (simp add: calculate_ema_Inr sweep_closes sweep_length sweep_ema sweep_rsi sweep_atr
      sweep_volume_avg sweep_last fgt_def fsub_def mkc_def)

lemma sweep_vwap: "calculate_vwap sweep_candles ! 19 = Fin (8821 / 87)"
  by (simp add: calculate_vwap_def Let_def cumsum_def series_def upt20 sweep_candles_def mkc_def)

lemma sweep_delta:
  "calculate_delta sweep_candles = [0,0,0,0,0,0,0,0,0,0,0,0,0,0,0,0,0,0,-4,3]"
  by (simp add: calculate_delta_def sweep_candles_def mkc_def)

lemma sweep_delta_ema:
  "ewm_mean (1 / 5) [0,0,0,0,0,0,0,0,0,0,0,0,0,0,0,0,0,0,-4,3] ! 19 = - 1 / 25"
  by simp

lemma vpof_fires:
  "volume_profile_order_flow_strategy sweep_candles =
     Inr (Some (mk_signal LONG (Fin 105) (Fin (120101 / 1218)) (Fin (1587 / 14)) 80
        ''Volume Profile + Order Flow''))"
  unfolding volume_profile_order_flow_strategy_def Let_def
  by (simp add: calculate_ema_Inr sweep_delta sweep_length sweep_delta_ema sweep_atr sweep_vwap
      sweep_volume_avg sweep_last fgt_def fsub_def mkc_def)



section \<open>A signal with its stop at its entry\<close>

lemma zero_stop_length: "length zero_stop_candles = 60"
  by (simp add: zero_stop_candles_def msb_history_def msb_rise_def)

lemma zero_stop_closes:
  "map close zero_stop_candles
     = replicate 46 10 @ [10,10,10,10,10,10,100,100,100,100,100,100,100,96]"
  by (simp add: zero_stop_candles_def msb_history_def msb_rise_def mkc_def)

lemma zero_stop_hist: "snd (snd (calculate_macd (map close zero_stop_candles))) ! 59 > 0"
  by (simp add: zero_stop_closes replicate_numeral_unfold calculate_macd_def Let_def)

lemma zero_stop_rsi: "calculate_rsi (map close zero_stop_candles) 14 ! 59 = Fin (4500 / 47)"
  by (simp add: zero_stop_closes replicate_numeral_unfold calculate_rsi_nth rolling_mean_full
      window_def gains_def losses_def diff_def series_def upt60 fmean_def fgt_def fsub_def)

lemma zero_stop_atr: "calculate_atr zero_stop_candles 14 ! 59 = Fin (135 / 14)"
  by (simp add: calculate_atr_def rolling_mean_full zero_stop_length window_def true_range_def
      series_def upt60 fmean_def zero_stop_candles_def msb_history_list mkc_def)

lemma zero_stop_swing_highs:
  "tail 3 (swing_rows maximum high zero_stop_candles)
     = [mkc 10 10 9 10 10, mkc 10 12 9 10 10, mkc 100 104 96 100 10]"
  by (simp add: swing_rows_def rolling_center_def series_def upt60 zero_stop_candles_def
      msb_history_list mkc_def maximum_def tail_def)

lemma zero_stop_swing_lows:
  "tail 3 (swing_rows minimum low zero_stop_candles)
     = [mkc 10 10 9 10 10, mkc 10 10 9 10 10, mkc 100 104 96 100 10]"
  by (simp add: swing_rows_def rolling_center_def series_def upt60 zero_stop_candles_def
      msb_history_list mkc_def minimum_def tail_def)

lemma zero_stop_last: "zero_stop_candles ! 59 = mkc 100 100 96 96 10"
  by (simp add: zero_stop_candles_def msb_history_def msb_rise_def nth_append)

lemma zero_stop_volume_avg:
  "rolling_mean 20 (map (\<lambda>c. Fin (volume c)) zero_stop_candles) ! 59 = Fin 10"
  by (simp add: rolling_mean_full zero_stop_length window_def fmean_def zero_stop_candles_def
      msb_history_list mkc_def)

lemma zero_stop_msb:
  "market_structure_break_strategy zero_stop_candles =
     Inr (Some (mk_signal LONG (Fin 96) (Fin 96) (Fin (1749 / 14)) 72 ''Market Structure Break''))"
  unfolding market_structure_break_strategy_def Let_def
  using zero_stop_hist
  by (simp add: zero_stop_length zero_stop_rsi zero_stop_atr zero_stop_swing_highs zero_stop_swing_lows zero_stop_last fgt_def mkc_def)

text \<open>
  The EMA Crossover and the Volume Profile detector ask, for either direction, for a
  volume above a multiple of its 20-period average.
\<close>

lemma ema_crossover_needs_volume:
  assumes "2 \<le> length df"
    and "\<not> fgt (Fin (volume (df ! (length df - 1))))
            (fmul (rolling_mean 20 (map (\<lambda>c. Fin (volume c)) df) ! (length df - 1)) (Fin (12 / 10)))"
  shows "ema_crossover_rsi_strategy df = Inr None"
proof -
  have "df \<noteq> []" using assms(1) by auto
  with assms show ?thesis
    by (simp add: ema_crossover_rsi_strategy_def calculate_ema_def Let_def)
qed

lemma volume_profile_needs_volume:
  assumes "1 \<le> length df"
    and "\<not> fgt (Fin (volume (df ! (length df - 1))))
            (fmul (rolling_mean 20 (map (\<lambda>c. Fin (volume c)) df) ! (length df - 1)) (Fin (15 / 10)))"
  shows "volume_profile_order_flow_strategy df = Inr None"
proof -
  have "df \<noteq> []" using assms(1) by auto
  with assms show ?thesis
    by (simp add: volume_profile_order_flow_strategy_def calculate_ema_def Let_def)
qed

lemma zero_stop_ema: "ema_crossover_rsi_strategy zero_stop_candles = Inr None"
  by (rule ema_crossover_needs_volume) (simp_all add: zero_stop_length zero_stop_volume_avg zero_stop_last mkc_def fgt_def)

lemma zero_stop_vpof: "volume_profile_order_flow_strategy zero_stop_candles = Inr None"
  by (rule volume_profile_needs_volume) (simp_all add: zero_stop_length zero_stop_volume_avg zero_stop_last mkc_def fgt_def)

lemma zero_stop_analyze:
  "analyze_market b zero_stop_candles =
     (b, Inr [mk_signal LONG (Fin 96) (Fin 96) (Fin (1749 / 14)) 72 ''Market Structure Break''])"
proof -
  have "zero_stop_candles \<noteq> []" using zero_stop_length by auto
  then show ?thesis
    by (simp add: analyze_market_def zero_stop_ema zero_stop_vpof zero_stop_msb liquidity_sweep_fvg_strategy_result
        delta_divergence_strategy_result)
qed

text \<open>
  The claim C3 fails on the sixty candles that end with a close of 96. The Market
  Structure Break detector emits a LONG whose entry is the close and whose stop is the
  last swing low, the same 96, both \<open>numpy.float64\<close>. The sizer divides by the zero
  distance and returns infinity, and the pass of the loop over this frame logs the trade
  as executed with that size.
\<close>

theorem zero_stop_distance_counterexample:
  "market_structure_break_strategy zero_stop_candles =
     Inr (Some (mk_signal LONG (Fin 96) (Fin 96) (Fin (1749 / 14)) 72 ''Market Structure Break''))
   \<and> calculate_position_size (TradingBot_init default_config)
        (NpFloat (Fin 96)) (NpFloat (Fin 96)) = Inr (NpFloat PInf)
   \<and> run_iteration (TradingBot_init default_config) (Some zero_stop_candles) =
       (TradingBot_init default_config,
        [TradeExecuted
           (mk_signal LONG (Fin 96) (Fin 96) (Fin (1749 / 14)) 72 ''Market Structure Break'')
           (NpFloat PInf)])"
proof -
  have zero: "rd 0 = Fin 0" by (simp add: rd_def)
  show ?thesis
    using zero_stop_msb default_risk_amount zero
    by (simp add: run_iteration_def zero_stop_analyze zero_stop_length execute_trade_def
        calculate_position_size_def float_of_int_def np_round_def TradingBot_init_def
        default_config_def fsub_def mk_signal_def)
qed

section \<open>Short histories: the claim\<close>

lemma upt14: "[0..<14] = [0,1,2,3,4,5,6,7,8,9,10,11,12,13]"
  by (simp add: upt_rec)

lemma msb_short_closes:
  "map close msb_short_candles = [10,10,10,10,10,10,100,100,100,100,100,100,100,50]"
  by (simp add: msb_short_candles_def msb_rise_def mkc_def)

lemma msb_short_length: "length msb_short_candles = 14"
  by (simp add: msb_short_candles_def msb_rise_def)

lemma msb_short_hist:
  "snd (snd (calculate_macd [10,10,10,10,10,10,100,100,100,100,100,100,100,50])) ! 13 > 0"
  by (simp add: calculate_macd_def Let_def)

lemma msb_short_rsi:
  "calculate_rsi [10,10,10,10,10,10,100,100,100,100,100,100,100,50] 14 ! 13 = Fin (450 / 7)"
  by (simp add: calculate_rsi_nth rolling_mean_full window_def gains_def losses_def diff_def
      series_def upt14 fmean_def fgt_def fsub_def)

lemma msb_short_atr: "calculate_atr msb_short_candles 14 ! 13 = Fin (181 / 14)"
  by (simp add: calculate_atr_def rolling_mean_full msb_short_length window_def true_range_def
      series_def upt14 fmean_def msb_short_candles_def msb_rise_def mkc_def)

lemma msb_short_swing_highs:
  "tail 3 (swing_rows maximum high msb_short_candles)
     = [mkc 10 12 9 10 10, mkc 100 104 96 100 10]"
  by (simp add: swing_rows_def rolling_center_def series_def upt14 msb_short_candles_def
      msb_rise_def mkc_def maximum_def tail_def)

lemma msb_short_swing_lows:
  "tail 3 (swing_rows minimum low msb_short_candles)
     = [mkc 10 10 9 10 10, mkc 10 10 9 10 10, mkc 100 104 96 100 10]"
  by (simp add: swing_rows_def rolling_center_def series_def upt14 msb_short_candles_def
      msb_rise_def mkc_def minimum_def tail_def)

lemma msb_short_last: "msb_short_candles ! 13 = mkc 100 100 50 50 10"
  by (simp add: msb_short_candles_def msb_rise_def)

text \<open>
  Fourteen candles are enough for the Market Structure Break detector: on them it goes
  long at 50.
\<close>

lemma msb_short_fires:
  "market_structure_break_strategy msb_short_candles =
     Inr (Some (mk_signal LONG (Fin 50) (Fin 96) (Fin (1243 / 14)) 72 ''Market Structure Break''))"
  unfolding market_structure_break_strategy_def Let_def
  using msb_short_hist
  by (simp add: msb_short_closes msb_short_length msb_short_rsi msb_short_atr
      msb_short_swing_highs msb_short_swing_lows msb_short_last fgt_def mkc_def)

text \<open>
  C4, as the code has it. No detector checks the length of the frame. On the empty frame
  four detectors raise \<open>IndexError\<close> at \<open>iloc[-1]\<close> and the Delta Divergence detector raises
  \<open>TypeError\<close> in \<open>nsmallest\<close>; the EMA Crossover detector raises \<open>IndexError\<close> on a single
  candle too, at \<open>iloc[-2]\<close>. On a non-empty frame a detector returns no signal while a
  rolling window it depends on is not full: the EMA Crossover detector from 2 to 19
  candles and the Volume Profile detector from 1 to 19 (the 20-period volume average),
  the Market Structure Break detector from 1 to 13 (the RSI over 14). These bounds are
  the least ones: on the twenty candles \<open>sweep_candles\<close> the EMA Crossover and the Volume
  Profile detector emit a signal, and on the fourteen candles \<open>msb_short_candles\<close> the
  Market Structure Break detector does. The Liquidity Sweep and the Delta Divergence
  detector return no signal on every non-empty frame. The length is checked by the loop,
  which hands a frame to the detectors only when it has more than 50 rows.
\<close>

theorem short_history:
  "(length df < 2 \<longrightarrow> ema_crossover_rsi_strategy df = Inl IndexError)
   \<and> (2 \<le> length df \<and> length df < 20 \<longrightarrow> ema_crossover_rsi_strategy df = Inr None)
   \<and> volume_profile_order_flow_strategy [] = Inl IndexError
   \<and> (1 \<le> length df \<and> length df < 20 \<longrightarrow> volume_profile_order_flow_strategy df = Inr None)
   \<and> market_structure_break_strategy [] = Inl IndexError
   \<and> (1 \<le> length df \<and> length df < 14 \<longrightarrow> market_structure_break_strategy df = Inr None)
   \<and> liquidity_sweep_fvg_strategy [] = Inl IndexError
   \<and> (1 \<le> length df \<longrightarrow> liquidity_sweep_fvg_strategy df = Inr None)
   \<and> delta_divergence_strategy [] = Inl TypeError
   \<and> (1 \<le> length df \<longrightarrow> delta_divergence_strategy df = Inr None)
   \<and> (length df \<le> 50 \<longrightarrow> run_iteration b (Some df) = (b, []))
   \<and> length sweep_candles = 20
   \<and> ema_crossover_rsi_strategy sweep_candles =
       Inr (Some (mk_signal LONG (Fin 105) (Fin (696 / 7)) (Fin (813 / 7)) 75
          ''EMA Crossover with RSI''))
   \<and> volume_profile_order_flow_strategy sweep_candles =
       Inr (Some (mk_signal LONG (Fin 105) (Fin (120101 / 1218)) (Fin (1587 / 14)) 80
          ''Volume Profile + Order Flow''))
   \<and> length msb_short_candles = 14
   \<and> market_structure_break_strategy msb_short_candles =
       Inr (Some (mk_signal LONG (Fin 50) (Fin 96) (Fin (1243 / 14)) 72
          ''Market Structure Break''))"
  using ema_crossover_rsi_strategy_raises [of df] ema_crossover_rsi_strategy_short [of df]
    volume_profile_order_flow_strategy_raises volume_profile_order_flow_strategy_short [of df]
    market_structure_break_strategy_raises market_structure_break_strategy_short [of df]
    liquidity_sweep_fvg_strategy_result [of df] liquidity_sweep_fvg_strategy_result [of "[]"]
    delta_divergence_strategy_result [of df] delta_divergence_strategy_result [of "[]"]
    run_iteration_gate [of df b]
    sweep_length ema_fires vpof_fires msb_short_length msb_short_fires
  by auto

theorem short_history_witness:
  "2 \<le> length [mkc 100 101 99 100 10, mkc 100 101 99 100 10]
   \<and> length [mkc 100 101 99 100 10, mkc 100 101 99 100 10] < 14
   \<and> ema_crossover_rsi_strategy [mkc 100 101 99 100 10, mkc 100 101 99 100 10] = Inr None
   \<and> volume_profile_order_flow_strategy [mkc 100 101 99 100 10, mkc 100 101 99 100 10] = Inr None
   \<and> market_structure_break_strategy [mkc 100 101 99 100 10, mkc 100 101 99 100 10] = Inr None
   \<and> liquidity_sweep_fvg_strategy [mkc 100 101 99 100 10, mkc 100 101 99 100 10] = Inr None
   \<and> delta_divergence_strategy [mkc 100 101 99 100 10, mkc 100 101 99 100 10] = Inr None
   \<and> run_iteration (TradingBot_init default_config)
        (Some [mkc 100 101 99 100 10, mkc 100 101 99 100 10]) = (TradingBot_init default_config, [])"
  using short_history [of "[mkc 100 101 99 100 10, mkc 100 101 99 100 10]"
      "TradingBot_init default_config"]
  by simp

text \<open>
  The claim C4 fails on the empty frame, where every detector raises, and on a single
  candle, where the EMA Crossover detector raises. It also fails for a window read as the
  longest span a detector computes with, the 50 of the slow EMA: on twenty candles the EMA
  Crossover detector emits a signal.
\<close>

theorem short_history_counterexample:
  "ema_crossover_rsi_strategy [] = Inl IndexError
   \<and> volume_profile_order_flow_strategy [] = Inl IndexError
   \<and> market_structure_break_strategy [] = Inl IndexError
   \<and> liquidity_sweep_fvg_strategy [] = Inl IndexError
   \<and> delta_divergence_strategy [] = Inl TypeError
   \<and> ema_crossover_rsi_strategy [mkc 100 101 99 100 10] = Inl IndexError
   \<and> length sweep_candles = 20
   \<and> ema_crossover_rsi_strategy sweep_candles =
       Inr (Some (mk_signal LONG (Fin 105) (Fin (696 / 7)) (Fin (813 / 7)) 75
          ''EMA Crossover with RSI''))"
  using sweep_length ema_fires
  by (simp add: ema_crossover_rsi_strategy_raises volume_profile_order_flow_strategy_raises
      market_structure_break_strategy_raises liquidity_sweep_fvg_strategy_result
      delta_divergence_strategy_result)

end
